theory Spec2Isabelle
  imports Main
begin

section \<open>Values of the host language\<close>

text \<open>
  Object ids are opaque; a \<open>Date\<close> is its number of milliseconds since the epoch.
  The host clock is taken to run in UTC without daylight saving, so that local
  wall-clock arithmetic (\<open>setHours\<close>, \<open>setMinutes\<close>) is plain arithmetic on milliseconds.
  An invalid \<open>Date\<close> (time value \<open>NaN\<close>) is \<open>None\<close>.
\<close>

type_synonym oid = nat
type_synonym date = int

text \<open>
  A thrown JavaScript error: its \<open>name\<close>, its \<open>code\<close> (only driver errors carry one) and
  its \<open>message\<close>.
\<close>

datatype js_error = JsError (err_name: string) (err_code: "nat option") (err_message: string)

text \<open>\<open>throw new Error(prefix + error.message)\<close>: the catch blocks of the service.\<close>

definition rethrow :: "string \<Rightarrow> js_error \<Rightarrow> js_error" where
  "rethrow prefix e = JsError ''Error'' None (prefix @ err_message e)"

text \<open>\<open>err.code === 11000\<close>: how the error handler recognises a duplicate key error.\<close>

definition isDuplicateKeyError :: "js_error \<Rightarrow> bool" where
  "isDuplicateKeyError e = (err_code e = Some 11000)"

text \<open>\<open>err.name === 'ValidationError'\<close>: how it recognises a validation error.\<close>

definition isValidationError :: "js_error \<Rightarrow> bool" where
  "isValidationError e = (err_name e = ''ValidationError'')"

fun join :: "string \<Rightarrow> string list \<Rightarrow> string" where
  "join sep [] = []"
| "join sep [x] = x"
| "join sep (x # y # ys) = x @ sep @ join sep (y # ys)"

text \<open>
  The object-document mapper's validation error: one (path, message) pair per failing
  path, the message built as the mapper builds it.
\<close>

definition validationError :: "string \<Rightarrow> (string \<times> string) list \<Rightarrow> js_error" where
  "validationError model errs =
     JsError ''ValidationError'' None
       (model @ '' validation failed: '' @ join '', '' (map (\<lambda>(p, m). p @ '': '' @ m) errs))"

text \<open>
  The driver's duplicate key error for a unique index (the database name and the dump
  of the offending key, which the driver appends, are left out of the message).
\<close>

definition duplicateKeyError :: "string \<Rightarrow> string \<Rightarrow> js_error" where
  "duplicateKeyError collection index =
     JsError ''MongoServerError'' (Some 11000)
       (''E11000 duplicate key error collection: '' @ collection @ '' index: '' @ index)"

text \<open>
  The mapper's error for a \<open>save\<close> of a loaded document that is no longer stored (the
  dump of the query is left out of the message).
\<close>

definition documentNotFoundError :: "string \<Rightarrow> js_error" where
  "documentNotFoundError model =
     JsError ''DocumentNotFoundError'' None (''No document found for query on model '' @ model)"

text \<open>
  The mapper casts the operand of a comparison on a \<open>Number\<close> path to a number before the
  query is sent; an operand that is not a number makes the query fail with this error.
\<close>

definition castError :: "string \<Rightarrow> string \<Rightarrow> string \<Rightarrow> js_error" where
  "castError v path model =
     JsError ''CastError'' None
       (''Cast to Number failed for value '' @ [CHR 0x22] @ v @ [CHR 0x22]
        @ '' (type string) at path '' @ [CHR 0x22] @ path @ [CHR 0x22]
        @ '' for model '' @ [CHR 0x22] @ model @ [CHR 0x22])"

section \<open>Strings: digits, numbers, trimming\<close>

definition isDigit :: "char \<Rightarrow> bool" where
  "isDigit c = (c \<in> set ''0123456789'')"

definition digitVal :: "char \<Rightarrow> int" where
  "digitVal c = int (of_char c) - 48"

text \<open>
  \<open>Number(s)\<close> on a string: decimal digit strings (and the empty string, which is 0) are
  numbers; every other string is taken to be \<open>NaN\<close> (\<open>None\<close>). Signs, fractions, exponents,
  other radixes and surrounding blanks are not modelled: the schema's time format admits
  digits only, and the one other string cast in this development starts with \<open>$\<close>.
\<close>

definition toNumber :: "string \<Rightarrow> int option" where
  "toNumber s =
     (if list_all isDigit s then Some (foldl (\<lambda>acc c. 10 * acc + digitVal c) 0 s) else None)"

text \<open>\<open>trim\<close> and \<open>toUpperCase\<close>, on ASCII white space and ASCII letters.\<close>

definition isSpace :: "char \<Rightarrow> bool" where
  "isSpace c = (c \<in> set [CHR '' '', CHR 0x09, CHR 0x0A, CHR 0x0B, CHR 0x0C, CHR 0x0D])"

definition trim :: "string \<Rightarrow> string" where
  "trim s = rev (dropWhile isSpace (rev (dropWhile isSpace s)))"

definition toUpperChar :: "char \<Rightarrow> char" where
  "toUpperChar c =
     (let n = (of_char c :: nat) in if 97 \<le> n \<and> n \<le> 122 then char_of (n - 32) else c)"

definition toUpperCase :: "string \<Rightarrow> string" where
  "toUpperCase s = map toUpperChar s"

text \<open>\<open>s.split(':')\<close>.\<close>

fun split_colon :: "string \<Rightarrow> string list" where
  "split_colon [] = [[]]"
| "split_colon (c # cs) =
     (if c = CHR '':'' then [] # split_colon cs
      else (case split_colon cs of [] \<Rightarrow> [[c]] | w # ws \<Rightarrow> (c # w) # ws))"

text \<open>\<open>xs[i]\<close> on an array: \<open>undefined\<close> (\<open>None\<close>) out of range.\<close>

definition at_index :: "'a list \<Rightarrow> nat \<Rightarrow> 'a option" where
  "at_index xs i = (if i < length xs then Some (xs ! i) else None)"

text \<open>
  The schema's time format \<open>/^([0-1]?[0-9]|2[0-3]):[0-5][0-9]$/\<close>: one hour digit, or two
  hour digits up to 23, a colon and two minute digits up to 59.
\<close>

fun timeFormat :: "string \<Rightarrow> bool" where
  "timeFormat [h, c, m1, m2] =
     (isDigit h \<and> c = CHR '':'' \<and> m1 \<in> set ''012345'' \<and> isDigit m2)"
| "timeFormat [h1, h2, c, m1, m2] =
     (((h1 \<in> set ''01'' \<and> isDigit h2) \<or> (h1 = CHR ''2'' \<and> h2 \<in> set ''0123''))
      \<and> c = CHR '':'' \<and> m1 \<in> set ''012345'' \<and> isDigit m2)"
| "timeFormat _ = False"

section \<open>Dates\<close>

definition msPerMinute :: int where "msPerMinute = 60000"
definition msPerHour :: int where "msPerHour = 3600000"
definition msPerDay :: int where "msPerDay = 86400000"

definition startOfDay :: "date \<Rightarrow> date" where
  "startOfDay d = d - d mod msPerDay"

text \<open>
  \<open>d.setHours(h, m, 0, 0)\<close> with the two arguments as the code passes them: elements of a
  split string, \<open>undefined\<close> when absent. A \<open>NaN\<close> argument makes the date invalid.
\<close>

definition setHours :: "date \<Rightarrow> string option \<Rightarrow> string option \<Rightarrow> date option" where
  "setHours d h m =
     (case (Option.bind h toNumber, Option.bind m toNumber) of
        (Some hh, Some mm) \<Rightarrow> Some (startOfDay d + hh * msPerHour + mm * msPerMinute)
      | _ \<Rightarrow> None)"

text \<open>Comparison of dates: every comparison with an invalid date is false.\<close>

definition date_gt :: "date option \<Rightarrow> date option \<Rightarrow> bool" where
  "date_gt a b = (case (a, b) of (Some x, Some y) \<Rightarrow> x > y | _ \<Rightarrow> False)"

definition date_lt :: "date option \<Rightarrow> date option \<Rightarrow> bool" where
  "date_lt a b = (case (a, b) of (Some x, Some y) \<Rightarrow> x < y | _ \<Rightarrow> False)"

text \<open>\<open>new Date(d.getTime() + k)\<close>.\<close>

definition date_plus :: "date option \<Rightarrow> int \<Rightarrow> date option" where
  "date_plus d k = map_option (\<lambda>x. x + k) d"

text \<open>Decimal rendering of a number inside a validator message.\<close>

function show_nat :: "nat \<Rightarrow> string" where
  "show_nat n =
     (if n < 10 then [char_of (48 + n)] else show_nat (n div 10) @ [char_of (48 + n mod 10)])"
  by pat_completeness auto
termination
  by (relation "measure id") auto

declare show_nat.simps [simp del]

definition show_int :: "int \<Rightarrow> string" where
  "show_int i = (if i < 0 then CHR ''-'' # show_nat (nat (- i)) else show_nat (nat i))"

text \<open>The mapper's message for a failed \<open>min\<close> validator without a message of its own.\<close>

definition minError :: "string \<Rightarrow> int \<Rightarrow> int \<Rightarrow> string \<times> string" where
  "minError path v lo =
     (path, ''Path '' @ [CHR 0x60] @ path @ [CHR 0x60] @ '' ('' @ show_int v
            @ '') is less than minimum allowed value ('' @ show_int lo @ '').'')"

section \<open>The data model\<close>

text \<open>
  The three schemas, with the fields the operations below read or write. Audit
  timestamps and the location fields of a code and of an attendance entry play no part
  in them and are left out; the rendered image and the device information are kept as
  opaque strings. The counters are numbers that hold integers: the schemas give them
  integer defaults, and the operations below only add 1 to them or copy them.
\<close>

datatype lecture_status = Scheduled | Ongoing | Completed | Cancelled

datatype attendance_status = Present | Late | Absent | Excused

record lecture =
  lec_id :: oid
  lecturerId :: oid
  lecturerName :: string
  unitName :: string
  unitCode :: string
  lec_date :: date
  startTime :: string
  endTime :: string
  venue :: string
  qrCodeId :: "oid option"
  lec_status :: lecture_status
  attendanceCount :: int
  totalStudents :: int
  description :: string
  lec_isActive :: bool

record qrcode =
  qr_id :: oid
  qr_lectureId :: oid
  uniqueCode :: string
  qrCodeImage :: string
  expiresAt :: date
  qr_isActive :: bool
  scanCount :: int
  maxScans :: int

record attendance =
  att_id :: oid
  studentId :: oid
  att_lectureId :: oid
  att_qrCodeId :: oid
  scanTime :: date
  att_status :: attendance_status
  deviceInfo :: string
  isVerified :: bool
  att_notes :: "string option"

text \<open>The database: one collection per model, in insertion order.\<close>

record store =
  lectures :: "lecture list"
  qrcodes :: "qrcode list"
  attendances :: "attendance list"

section \<open>The Lecture model\<close>

text \<open>The \<open>lectureData\<close> object a caller hands to \<open>new Lecture(...)\<close>.\<close>

record lecture_data =
  ld_lecturerId :: oid
  ld_lecturerName :: string
  ld_unitName :: string
  ld_unitCode :: string
  ld_date :: date
  ld_startTime :: string
  ld_endTime :: string
  ld_venue :: string
  ld_totalStudents :: int
  ld_description :: string
  ld_status :: lecture_status

text \<open>
  \<open>new Lecture(lectureData)\<close> with a freshly drawn object id: the schema's setters
  (\<open>trim\<close>, \<open>uppercase\<close>) and defaults.
\<close>

definition new_Lecture :: "oid \<Rightarrow> lecture_data \<Rightarrow> lecture" where
  "new_Lecture i d =
     \<lparr> lec_id = i, lecturerId = ld_lecturerId d, lecturerName = ld_lecturerName d,
       unitName = trim (ld_unitName d), unitCode = trim (toUpperCase (ld_unitCode d)),
       lec_date = ld_date d, startTime = ld_startTime d, endTime = ld_endTime d,
       venue = trim (ld_venue d), qrCodeId = None, lec_status = ld_status d,
       attendanceCount = 0, totalStudents = ld_totalStudents d,
       description = ld_description d, lec_isActive = True \<rparr>"

definition timeErrors :: "string \<Rightarrow> string \<Rightarrow> string \<Rightarrow> (string \<times> string) list" where
  "timeErrors path required t =
     (if t = [] then [(path, required)]
      else if \<not> timeFormat t then [(path, ''Please provide valid time format (HH:MM)'')]
      else [])"

text \<open>The schema's validators, run by every \<open>save\<close> before anything is written.\<close>

definition Lecture_validate :: "lecture \<Rightarrow> (string \<times> string) list" where
  "Lecture_validate l =
     (if lecturerName l = [] then [(''lecturerName'', ''Lecturer name is required'')] else [])
     @ (if unitName l = [] then [(''unitName'', ''Unit name is required'')] else [])
     @ (if unitCode l = [] then [(''unitCode'', ''Unit code is required'')] else [])
     @ timeErrors ''startTime'' ''Start time is required'' (startTime l)
     @ timeErrors ''endTime'' ''End time is required'' (endTime l)
     @ (if venue l = [] then [(''venue'', ''Venue is required'')] else [])
     @ (if attendanceCount l < 0 then [minError ''attendanceCount'' (attendanceCount l) 0] else [])
     @ (if totalStudents l < 0 then [minError ''totalStudents'' (totalStudents l) 0] else [])
     @ (if length (description l) > 500
        then [(''description'', ''Description cannot exceed 500 characters'')] else [])"

definition Lecture_findById :: "store \<Rightarrow> oid \<Rightarrow> lecture option" where
  "Lecture_findById st i = find (\<lambda>l. lec_id l = i) (lectures st)"

text \<open>\<open>save\<close> of a new document: validation, then the insert.\<close>

definition Lecture_save_new :: "store \<Rightarrow> lecture \<Rightarrow> js_error + store" where
  "Lecture_save_new st l =
     (if Lecture_validate l \<noteq> [] then Inl (validationError ''Lecture'' (Lecture_validate l))
      else if Lecture_findById st (lec_id l) \<noteq> None
        then Inl (duplicateKeyError ''lectures'' ''_id_'')
      else Inr (st\<lparr>lectures := lectures st @ [l]\<rparr>))"

text \<open>
  \<open>save\<close> of a loaded document \<open>doc\<close> after the caller changed some of its paths:
  validation of the document in memory, then an update of the stored document with
  the same id that writes the changed paths only (\<open>upd\<close>).
\<close>

definition Lecture_save :: "store \<Rightarrow> lecture \<Rightarrow> (lecture \<Rightarrow> lecture) \<Rightarrow> js_error + store" where
  "Lecture_save st doc upd =
     (if Lecture_validate doc \<noteq> [] then Inl (validationError ''Lecture'' (Lecture_validate doc))
      else if Lecture_findById st (lec_id doc) = None then Inl (documentNotFoundError ''Lecture'')
      else Inr (st\<lparr>lectures := map (\<lambda>l. if lec_id l = lec_id doc then upd l else l) (lectures st)\<rparr>))"

section \<open>The QRCode model\<close>

definition QRCode_validate :: "qrcode \<Rightarrow> (string \<times> string) list" where
  "QRCode_validate q =
     (if uniqueCode q = [] then [(''uniqueCode'', ''Unique code is required'')] else [])
     @ (if qrCodeImage q = [] then [(''qrCodeImage'', ''QR code image is required'')] else [])
     @ (if scanCount q < 0 then [minError ''scanCount'' (scanCount q) 0] else [])
     @ (if maxScans q < 1 then [minError ''maxScans'' (maxScans q) 1] else [])"

definition QRCode_findById :: "store \<Rightarrow> oid \<Rightarrow> qrcode option" where
  "QRCode_findById st i = find (\<lambda>q. qr_id q = i) (qrcodes st)"

text \<open>\<open>save\<close> of a new code; \<open>uniqueCode\<close> carries a unique index.\<close>

definition QRCode_save_new :: "store \<Rightarrow> qrcode \<Rightarrow> js_error + store" where
  "QRCode_save_new st q =
     (if QRCode_validate q \<noteq> [] then Inl (validationError ''QRCode'' (QRCode_validate q))
      else if QRCode_findById st (qr_id q) \<noteq> None
        then Inl (duplicateKeyError ''qrcodes'' ''_id_'')
      else if find (\<lambda>x. uniqueCode x = uniqueCode q) (qrcodes st) \<noteq> None
        then Inl (duplicateKeyError ''qrcodes'' ''uniqueCode_1'')
      else Inr (st\<lparr>qrcodes := qrcodes st @ [q]\<rparr>))"

definition QRCode_save :: "store \<Rightarrow> qrcode \<Rightarrow> (qrcode \<Rightarrow> qrcode) \<Rightarrow> js_error + store" where
  "QRCode_save st doc upd =
     (if QRCode_validate doc \<noteq> [] then Inl (validationError ''QRCode'' (QRCode_validate doc))
      else if QRCode_findById st (qr_id doc) = None then Inl (documentNotFoundError ''QRCode'')
      else Inr (st\<lparr>qrcodes := map (\<lambda>q. if qr_id q = qr_id doc then upd q else q) (qrcodes st)\<rparr>))"

text \<open>
  A query on the codes as \<open>validateQRCode\<close> writes it: equality on \<open>uniqueCode\<close> and
  \<open>isActive\<close>, \<open>$gt\<close> on \<open>expiresAt\<close> and \<open>$lt\<close> on \<open>scanCount\<close>. The operand of \<open>$lt\<close> is a
  literal of the query: a number, or a string. The mapper casts it to the path's type
  (\<open>Number\<close>): a string that is not a number makes the query fail, the empty string is
  cast to \<open>null\<close>, which no number is less than.
\<close>

datatype operand = NumberOperand int | StringOperand string

record qrcode_filter =
  f_uniqueCode :: string
  f_isActive :: bool
  f_expiresAt_gt :: date
  f_scanCount_lt :: operand

definition castQueryNumber :: "string \<Rightarrow> string \<Rightarrow> operand \<Rightarrow> js_error + int option" where
  "castQueryNumber path model x =
     (case x of
        NumberOperand n \<Rightarrow> Inr (Some n)
      | StringOperand s \<Rightarrow>
          (if s = [] then Inr None
           else (case toNumber s of Some n \<Rightarrow> Inr (Some n) | None \<Rightarrow> Inl (castError s path model))))"

definition QRCode_findOne :: "store \<Rightarrow> qrcode_filter \<Rightarrow> js_error + qrcode option" where
  "QRCode_findOne st f =
     (case castQueryNumber ''scanCount'' ''QRCode'' (f_scanCount_lt f) of
        Inl e \<Rightarrow> Inl e
      | Inr bound \<Rightarrow>
          Inr (find (\<lambda>q. uniqueCode q = f_uniqueCode f \<and> qr_isActive q = f_isActive f
                         \<and> expiresAt q > f_expiresAt_gt f
                         \<and> (case bound of Some n \<Rightarrow> scanCount q < n | None \<Rightarrow> False))
                 (qrcodes st)))"

section \<open>The Attendance model\<close>

text \<open>\<open>new Attendance({studentId, lectureId, qrCodeId, deviceInfo, scanTime})\<close>.\<close>

definition new_Attendance :: "oid \<Rightarrow> oid \<Rightarrow> oid \<Rightarrow> oid \<Rightarrow> string \<Rightarrow> date \<Rightarrow> attendance" where
  "new_Attendance i student lectureId codeId device t =
     \<lparr> att_id = i, studentId = student, att_lectureId = lectureId, att_qrCodeId = codeId,
       scanTime = t, att_status = Present, deviceInfo = device, isVerified = True,
       att_notes = None \<rparr>"

definition Attendance_validate :: "attendance \<Rightarrow> (string \<times> string) list" where
  "Attendance_validate a =
     (case att_notes a of
        Some n \<Rightarrow> if length n > 200 then [(''notes'', ''Notes cannot exceed 200 characters'')] else []
      | None \<Rightarrow> [])"

definition Attendance_findById :: "store \<Rightarrow> oid \<Rightarrow> attendance option" where
  "Attendance_findById st i = find (\<lambda>a. att_id a = i) (attendances st)"

text \<open>\<open>Attendance.findOne({studentId, lectureId})\<close>.\<close>

definition Attendance_findOne :: "store \<Rightarrow> oid \<Rightarrow> oid \<Rightarrow> attendance option" where
  "Attendance_findOne st student lectureId =
     find (\<lambda>a. studentId a = student \<and> att_lectureId a = lectureId) (attendances st)"

text \<open>
  The start and the end of a lecture as both the pre-save hook and the validator
  compute them: the lecture's date with its hours and minutes replaced by the two
  parts of the \<open>HH:MM\<close> string.
\<close>

definition lectureStart :: "lecture \<Rightarrow> date option" where
  "lectureStart l =
     (let lectureStartTime = split_colon (startTime l)
      in setHours (lec_date l) (at_index lectureStartTime 0) (at_index lectureStartTime 1))"

definition lectureEnd :: "lecture \<Rightarrow> date option" where
  "lectureEnd l =
     (let lectureEndTime = split_colon (endTime l)
      in setHours (lec_date l) (at_index lectureEndTime 0) (at_index lectureEndTime 1))"

text \<open>The status the pre-save hook gives a scan, from the scan time and the two instants.\<close>

definition classify :: "date \<Rightarrow> date option \<Rightarrow> date option \<Rightarrow> attendance_status" where
  "classify scan lStart lEnd =
     (let lateThreshold = date_plus lStart (15 * 60000)
      in if date_gt (Some scan) lEnd then Absent
         else if date_gt (Some scan) lateThreshold then Late
         else Present)"

text \<open>
  The pre-save hook. \<open>isNew\<close> tells a document that was never saved from a loaded one;
  \<open>lookup\<close> is the outcome of \<open>Lecture.findById(this.lectureId)\<close>: an error when the
  lookup throws, else the lecture if there is one. The hook swallows the error.
\<close>

definition Attendance_preSave :: "bool \<Rightarrow> js_error + lecture option \<Rightarrow> attendance \<Rightarrow> attendance" where
  "Attendance_preSave isNew lookup a =
     (if isNew then
        (case lookup of
           Inr (Some lecture) \<Rightarrow>
             a\<lparr>att_status := classify (scanTime a) (lectureStart lecture) (lectureEnd lecture)\<rparr>
         | Inr None \<Rightarrow> a
         | Inl e \<Rightarrow> a)
      else a)"

text \<open>
  \<open>save\<close> of a new entry: validation, the hook, then the insert, which the unique index
  on (\<open>studentId\<close>, \<open>lectureId\<close>) refuses when the pair is there already. \<open>fault\<close> is the
  error the hook's lecture lookup throws, if it throws.
\<close>

definition Attendance_save_new ::
  "store \<Rightarrow> js_error option \<Rightarrow> attendance \<Rightarrow> js_error + (store \<times> attendance)" where
  "Attendance_save_new st fault a =
     (if Attendance_validate a \<noteq> [] then Inl (validationError ''Attendance'' (Attendance_validate a))
      else
        let lookup = (case fault of Some e \<Rightarrow> Inl e | None \<Rightarrow> Inr (Lecture_findById st (att_lectureId a)));
            a' = Attendance_preSave True lookup a
        in if Attendance_findById st (att_id a') \<noteq> None
             then Inl (duplicateKeyError ''attendances'' ''_id_'')
           else if Attendance_findOne st (studentId a') (att_lectureId a') \<noteq> None
             then Inl (duplicateKeyError ''attendances'' ''studentId_1_lectureId_1'')
           else Inr (st\<lparr>attendances := attendances st @ [a']\<rparr>, a'))"

text \<open>\<open>save\<close> of a loaded entry: validation, the hook (not new), the update.\<close>

definition Attendance_save ::
  "store \<Rightarrow> attendance \<Rightarrow> (attendance \<Rightarrow> attendance) \<Rightarrow> js_error + store" where
  "Attendance_save st doc upd =
     (if Attendance_validate doc \<noteq> [] then Inl (validationError ''Attendance'' (Attendance_validate doc))
      else
        let doc' = Attendance_preSave False (Inr (Lecture_findById st (att_lectureId doc))) doc
        in if Attendance_findById st (att_id doc') = None
             then Inl (documentNotFoundError ''Attendance'')
           else Inr (st\<lparr>attendances :=
                  map (\<lambda>a. if att_id a = att_id doc' then upd a else a) (attendances st)\<rparr>))"

section \<open>The service\<close>

subsection \<open>Issuing a code\<close>

text \<open>
  What \<open>generateQRCode\<close> takes from its surroundings: the clock reading, the two fresh
  object ids, the random \<open>uniqueCode\<close> and the outcome of the external image renderer.
\<close>

record issue_env =
  ie_now :: date
  ie_lectureId :: oid
  ie_uniqueCode :: string
  ie_image :: "js_error + string"
  ie_qrCodeId :: oid

record issue_result =
  ir_lectureId :: oid
  ir_qrCodeId :: oid
  ir_qrCodeImage :: string
  ir_uniqueCode :: string
  ir_expiresAt :: date
  ir_unitName :: string
  ir_unitCode :: string
  ir_date :: date
  ir_startTime :: string
  ir_endTime :: string
  ir_venue :: string

definition generateQRCode ::
  "store \<Rightarrow> lecture_data \<Rightarrow> int \<Rightarrow> issue_env \<Rightarrow> (js_error + issue_result) \<times> store" where
  "generateQRCode st lectureData durationMinutes env =
     (let lecture = new_Lecture (ie_lectureId env) lectureData;
          failed = rethrow ''Failed to generate QR code: ''
      in case Lecture_save_new st lecture of
           Inl e \<Rightarrow> (Inl (failed e), st)
         | Inr st1 \<Rightarrow>
             let code = ie_uniqueCode env;
                 expires = ie_now env + durationMinutes * 60000
             in case ie_image env of
                  Inl e \<Rightarrow> (Inl (failed e), st1)
                | Inr img \<Rightarrow>
                    let qrCode = \<lparr> qr_id = ie_qrCodeId env, qr_lectureId = lec_id lecture,
                                   uniqueCode = code, qrCodeImage = img,
                                   expiresAt = expires, qr_isActive = True, scanCount = 0,
                                   maxScans = (if totalStudents lecture \<noteq> 0
                                               then totalStudents lecture else 100) \<rparr>
                    in case QRCode_save_new st1 qrCode of
                         Inl e \<Rightarrow> (Inl (failed e), st1)
                       | Inr st2 \<Rightarrow>
                           (case Lecture_save st2 (lecture\<lparr>qrCodeId := Some (qr_id qrCode)\<rparr>)
                                   (\<lambda>l. l\<lparr>qrCodeId := Some (qr_id qrCode)\<rparr>) of
                              Inl e \<Rightarrow> (Inl (failed e), st2)
                            | Inr st3 \<Rightarrow>
                                (Inr \<lparr> ir_lectureId = lec_id lecture, ir_qrCodeId = qr_id qrCode,
                                       ir_qrCodeImage = img, ir_uniqueCode = code,
                                       ir_expiresAt = expires, ir_unitName = unitName lecture,
                                       ir_unitCode = unitCode lecture, ir_date = lec_date lecture,
                                       ir_startTime = startTime lecture,
                                       ir_endTime = endTime lecture, ir_venue = venue lecture \<rparr>,
                                 st3)))"

subsection \<open>Validating a scan\<close>

text \<open>The result object of \<open>validateQRCode\<close>: valid with the code and its lecture, or a message.\<close>

datatype validation = Valid qrcode lecture | Invalid string

definition msgInvalidCode :: string where
  "msgInvalidCode = ''QR code is invalid, expired, or has reached maximum scans''"

definition msgLectureUnavailable :: string where
  "msgLectureUnavailable = ''Lecture is not available''"

definition msgAlreadyMarked :: string where
  "msgAlreadyMarked = ''Attendance already marked for this lecture''"

definition msgOutsideWindow :: string where
  "msgOutsideWindow = ''QR code can only be scanned during lecture time (''
      @ [CHR 0xC2, CHR 0xB1] @ ''30 minutes)''"

text \<open>
  A query for the code of a scan: from the store, the scanned string and the clock
  reading to a thrown error, no document, or the first matching document.
\<close>

type_synonym code_query = "store \<Rightarrow> string \<Rightarrow> date \<Rightarrow> js_error + qrcode option"

text \<open>
  The query \<open>validateQRCode\<close> sends. Its last condition is written
  \<open>scanCount: { $lt: '$maxScans' }\<close>: the operand is the string \<open>$maxScans\<close>, a literal of
  the query and not the document's \<open>maxScans\<close>.
\<close>

definition findActiveCode :: code_query where
  "findActiveCode st code queryTime =
     QRCode_findOne st \<lparr> f_uniqueCode = code, f_isActive = True, f_expiresAt_gt = queryTime,
                          f_scanCount_lt = StringOperand ''$maxScans'' \<rparr>"

text \<open>
  The body of \<open>validateQRCode\<close> over the query for the code. \<open>queryTime\<close> and \<open>now\<close> are the
  two clock readings of the function (the query's, then the window check's). The store
  is threaded through and comes back as it went in: the function only reads.
\<close>

definition validateUsing ::
  "code_query \<Rightarrow> store \<Rightarrow> string \<Rightarrow> oid \<Rightarrow> date \<Rightarrow> date \<Rightarrow> (js_error + validation) \<times> store" where
  "validateUsing query st code student queryTime now =
     (case query st code queryTime of
        Inl e \<Rightarrow> (Inl (rethrow ''QR code validation failed: '' e), st)
      | Inr None \<Rightarrow> (Inr (Invalid msgInvalidCode), st)
      | Inr (Some qrCode) \<Rightarrow>
          (case Lecture_findById st (qr_lectureId qrCode) of
             None \<Rightarrow> (Inr (Invalid msgLectureUnavailable), st)
           | Some lecture \<Rightarrow>
               if \<not> lec_isActive lecture then (Inr (Invalid msgLectureUnavailable), st)
               else
                 (case Attendance_findOne st student (lec_id lecture) of
                    Some existingAttendance \<Rightarrow> (Inr (Invalid msgAlreadyMarked), st)
                  | None \<Rightarrow>
                      let scanStart = date_plus (lectureStart lecture) (- (30 * 60000));
                          scanEnd = date_plus (lectureEnd lecture) (15 * 60000)
                      in if date_lt (Some now) scanStart \<or> date_gt (Some now) scanEnd
                         then (Inr (Invalid msgOutsideWindow), st)
                         else (Inr (Valid qrCode lecture), st))))"

definition validateQRCode ::
  "store \<Rightarrow> string \<Rightarrow> oid \<Rightarrow> date \<Rightarrow> date \<Rightarrow> (js_error + validation) \<times> store" where
  "validateQRCode = validateUsing findActiveCode"

subsection \<open>Recording an accepted scan\<close>

text \<open>
  What \<open>recordAttendance\<close> takes from its surroundings: the clock reading that becomes
  the scan time, the fresh object id, and the error of the hook's lecture lookup, if
  that lookup throws.
\<close>

record record_env =
  re_now :: date
  re_attendanceId :: oid
  re_lookupFault :: "js_error option"

record attendance_result =
  ar_attendanceId :: oid
  ar_lectureId :: oid
  ar_unitName :: string
  ar_unitCode :: string
  ar_lecturerName :: string
  ar_scanTime :: date
  ar_status :: attendance_status
  ar_venue :: string
  ar_date :: date
  ar_startTime :: string
  ar_endTime :: string

definition recordAttendance ::
  "store \<Rightarrow> qrcode \<Rightarrow> lecture \<Rightarrow> oid \<Rightarrow> string \<Rightarrow> record_env
     \<Rightarrow> (js_error + attendance_result) \<times> store" where
  "recordAttendance st qrCode lecture student device env =
     (let failed = rethrow ''Failed to record attendance: '';
          attendance = new_Attendance (re_attendanceId env) student (lec_id lecture)
                         (qr_id qrCode) device (re_now env)
      in case Attendance_save_new st (re_lookupFault env) attendance of
           Inl e \<Rightarrow> (Inl (failed e), st)
         | Inr (st1, saved) \<Rightarrow>
             let count = scanCount qrCode + 1;
                 exhausted = (count \<ge> maxScans qrCode);
                 qrCode' = qrCode\<lparr>scanCount := count,
                                  qr_isActive := (if exhausted then False else qr_isActive qrCode)\<rparr>
             in case QRCode_save st1 qrCode'
                       (\<lambda>q. q\<lparr>scanCount := count,
                               qr_isActive := (if exhausted then False else qr_isActive q)\<rparr>) of
                  Inl e \<Rightarrow> (Inl (failed e), st1)
                | Inr st2 \<Rightarrow>
                    let attended = attendanceCount lecture + 1
                    in case Lecture_save st2 (lecture\<lparr>attendanceCount := attended\<rparr>)
                              (\<lambda>l. l\<lparr>attendanceCount := attended\<rparr>) of
                         Inl e \<Rightarrow> (Inl (failed e), st2)
                       | Inr st3 \<Rightarrow>
                           (Inr \<lparr> ar_attendanceId = att_id saved, ar_lectureId = lec_id lecture,
                                  ar_unitName = unitName lecture, ar_unitCode = unitCode lecture,
                                  ar_lecturerName = lecturerName lecture,
                                  ar_scanTime = scanTime saved, ar_status = att_status saved,
                                  ar_venue = venue lecture, ar_date = lec_date lecture,
                                  ar_startTime = startTime lecture,
                                  ar_endTime = endTime lecture \<rparr>,
                            st3))"

subsection \<open>Revoking a code\<close>

definition deactivateQRCode :: "store \<Rightarrow> oid \<Rightarrow> date \<Rightarrow> (js_error + bool) \<times> store" where
  "deactivateQRCode st codeId now =
     (let failed = rethrow ''Failed to deactivate QR code: ''
      in case QRCode_findById st codeId of
           None \<Rightarrow> (Inl (failed (JsError ''Error'' None ''QR code not found'')), st)
         | Some qrCode \<Rightarrow>
             (case QRCode_save st (qrCode\<lparr>qr_isActive := False, expiresAt := now\<rparr>)
                     (\<lambda>q. q\<lparr>qr_isActive := False, expiresAt := now\<rparr>) of
                Inl e \<Rightarrow> (Inl (failed e), st)
              | Inr st1 \<Rightarrow> (Inr True, st1)))"

section \<open>The request handlers\<close>

text \<open>
  The handler functions of the two routes that call the service on behalf of a student
  and of a lecturer, and the lecturer's route as the router runs it, with the
  middleware in front of its handler. Authentication and the role check, whose code is
  not among the sources, are taken to have passed: a request carries the authenticated
  user. The status argument of the override is one of the four statuses by type.
\<close>

datatype 'a response = Success 'a | Failure nat string

record scan_request =
  rq_code :: string
  rq_user :: oid
  rq_device :: string
  rq_queryTime :: date
  rq_now :: date
  rq_env :: record_env

text \<open>
  The handler of \<open>POST /scan\<close>: validate, and record when the validation says valid.
\<close>

definition scanUsing ::
  "code_query \<Rightarrow> store \<Rightarrow> scan_request \<Rightarrow> attendance_result response \<times> store" where
  "scanUsing query st r =
     (case validateUsing query st (rq_code r) (rq_user r) (rq_queryTime r) (rq_now r) of
        (Inl e, st0) \<Rightarrow> (Failure 400 (err_message e), st0)
      | (Inr (Invalid message), st0) \<Rightarrow> (Failure 400 message, st0)
      | (Inr (Valid qrCode lecture), st0) \<Rightarrow>
          (case recordAttendance st0 qrCode lecture (rq_user r) (rq_device r) (rq_env r) of
             (Inl e, st1) \<Rightarrow> (Failure 400 (err_message e), st1)
           | (Inr result, st1) \<Rightarrow> (Success result, st1)))"

definition scan :: "store \<Rightarrow> scan_request \<Rightarrow> attendance_result response \<times> store" where
  "scan = scanUsing findActiveCode"

text \<open>The store after a sequence of scan requests, one after the other.\<close>

definition scansUsing :: "code_query \<Rightarrow> store \<Rightarrow> scan_request list \<Rightarrow> store" where
  "scansUsing query st rs = foldl (\<lambda>s r. snd (scanUsing query s r)) st rs"

text \<open>
  The handler of \<open>PUT /attendance/:id/status\<close>. A populated \<open>lectureId\<close> that is \<open>null\<close>
  makes the ownership test throw a \<open>TypeError\<close>, which the handler answers like every
  other error.
\<close>

definition attendanceStatusHandler ::
  "store \<Rightarrow> oid \<Rightarrow> oid \<Rightarrow> attendance_status \<Rightarrow> string option \<Rightarrow> attendance response \<times> store" where
  "attendanceStatusHandler st user attendanceId status newNotes =
     (case Attendance_findById st attendanceId of
        None \<Rightarrow> (Failure 404 ''Attendance record not found'', st)
      | Some attendance \<Rightarrow>
          (case Lecture_findById st (att_lectureId attendance) of
             None \<Rightarrow> (Failure 400 ''Cannot read properties of null (reading 'lecturerId')'', st)
           | Some lecture \<Rightarrow>
               if lecturerId lecture \<noteq> user
               then (Failure 403 ''Access denied to this attendance record'', st)
               else
                 let truthy = (newNotes \<noteq> None \<and> newNotes \<noteq> Some []);
                     attendance' = attendance\<lparr>att_status := status,
                                     att_notes := (if truthy then newNotes else att_notes attendance),
                                     isVerified := False\<rparr>
                 in case Attendance_save st attendance'
                           (\<lambda>a. a\<lparr>att_status := status,
                                   att_notes := (if truthy then newNotes else att_notes a),
                                   isVerified := False\<rparr>) of
                      Inl e \<Rightarrow> (Failure 400 (err_message e), st)
                    | Inr st1 \<Rightarrow> (Success attendance', st1)))"

subsection \<open>The route of the override, as it is wired\<close>

text \<open>
  What a middleware does with a request: it calls \<open>next()\<close>, or it sends a response, or
  it returns having done neither. What a route does with a request: one of its
  middlewares responds; or each calls \<open>next()\<close> and the request passes on; or one of them
  does neither, and the request gets no response.
\<close>

datatype 'a passage = Next | Answered 'a | Unanswered

datatype 'a outcome = Replied 'a | PassedOn | NoResponse

type_synonym ('r, 'a) middleware = "store \<Rightarrow> 'r \<Rightarrow> 'a passage \<times> store"

fun dispatch :: "('r, 'a) middleware list \<Rightarrow> store \<Rightarrow> 'r \<Rightarrow> 'a outcome \<times> store" where
  "dispatch [] st req = (PassedOn, st)"
| "dispatch (m # ms) st req =
     (case m st req of
        (Next, st1) \<Rightarrow> dispatch ms st1 req
      | (Answered a, st1) \<Rightarrow> (Replied a, st1)
      | (Unanswered, st1) \<Rightarrow> (NoResponse, st1))"

text \<open>
  A response of the route: the handler's, or the 400 of the validation middleware with
  its (field, message) pairs.
\<close>

datatype 'a reply = Handled "'a response" | ValidationErrors "(string \<times> string) list"

text \<open>A validation rule gives the errors of a request.\<close>

type_synonym 'r rule = "'r \<Rightarrow> (string \<times> string) list"

text \<open>
  \<open>validate\<close> of the validation module is a factory: given the rules, it returns the
  middleware that runs them and calls \<open>next()\<close> when no rule has an error, and responds
  with status 400 and the errors otherwise.
\<close>

definition validate :: "'r rule list \<Rightarrow> ('r, 'a reply) middleware" where
  "validate validations st req =
     (let errors = concat (map (\<lambda>validation. validation req) validations)
      in if errors = [] then (Next, st) else (Answered (ValidationErrors errors), st))"

text \<open>
  A rule put into a route as a middleware of its own: it records its errors on the
  request, for the middleware of \<open>validate\<close> to read, and calls \<open>next()\<close>.
\<close>

definition ruleMiddleware :: "'r rule \<Rightarrow> ('r, 'a) middleware" where
  "ruleMiddleware rule st req = (Next, st)"

text \<open>
  A factory put into a route uncalled, where a middleware is expected. The router calls
  it as it calls a middleware, so the request stands where the factory expects its
  rules; the factory builds a middleware and returns it, and the router drops what a
  middleware returns. Nothing has run: \<open>next()\<close> was not called and no response was sent.
\<close>

definition uncalled :: "('rules \<Rightarrow> ('r, 'a) middleware) \<Rightarrow> ('r, 'a) middleware" where
  "uncalled factory st req = (Unanswered, st)"

text \<open>A handler as the last middleware of its route: it responds.\<close>

definition handlerMiddleware ::
  "(store \<Rightarrow> 'r \<Rightarrow> 'a response \<times> store) \<Rightarrow> ('r, 'a reply) middleware" where
  "handlerMiddleware handler st req =
     (case handler st req of (answer, st1) \<Rightarrow> (Answered (Handled answer), st1))"

text \<open>
  The request of the override, and its rule \<open>body('status').isIn([...])\<close>, which no
  request of this type fails.
\<close>

record status_request =
  sr_user :: oid
  sr_attendanceId :: oid
  sr_status :: attendance_status
  sr_notes :: "string option"

definition statusRule :: "status_request rule" where
  "statusRule req = []"

text \<open>
  \<open>PUT /attendance/:id/status\<close> as the router source wires it: the rule, then \<open>validate\<close>
  itself (not \<open>validate\<close> applied to the rules, as the route that issues a code has it),
  then the handler.
\<close>

definition updateAttendanceStatus ::
  "store \<Rightarrow> status_request \<Rightarrow> attendance reply outcome \<times> store" where
  "updateAttendanceStatus =
     dispatch [ruleMiddleware statusRule,
               uncalled validate,
               handlerMiddleware (\<lambda>st req. attendanceStatusHandler st (sr_user req)
                  (sr_attendanceId req) (sr_status req) (sr_notes req))]"

section \<open>The query of the specification\<close>

text \<open>
  The token lookup as the specification words it (section 4.2, step 1): the token
  exists, is active, expires after now and has its consumption counter below its
  consumption limit. It is set beside \<open>findActiveCode\<close>, the query of the code.
\<close>

definition specCodeQuery :: code_query where
  "specCodeQuery st code queryTime =
     Inr (find (\<lambda>q. uniqueCode q = code \<and> qr_isActive q \<and> expiresAt q > queryTime
                     \<and> scanCount q < maxScans q) (qrcodes st))"

section \<open>Invariants of the store\<close>

text \<open>No code has counted more scans than its limit.\<close>

definition budget_invariant :: "store \<Rightarrow> bool" where
  "budget_invariant st = (\<forall>q \<in> set (qrcodes st). scanCount q \<le> maxScans q)"

text \<open>Object ids are unique within the codes.\<close>

definition distinct_code_ids :: "store \<Rightarrow> bool" where
  "distinct_code_ids st = distinct (map qr_id (qrcodes st))"

text \<open>
  What the validator relies on in its query for the code: a document it returns is one
  of the store's and has counted fewer scans than its limit. A query that returns no
  document, or throws, has the property as well.
\<close>

definition query_sound :: "code_query \<Rightarrow> bool" where
  "query_sound query =
     (\<forall>st code t q. query st code t = Inr (Some q)
          \<longrightarrow> q \<in> set (qrcodes st) \<and> scanCount q < maxScans q)"

text \<open>
  The stores that the operations of this development build from the empty store, with
  \<open>query\<close> as the validator's query for the code. The override is there as its route is
  wired and as its handler acts when it is called.
\<close>

definition emptyStore :: store where
  "emptyStore = \<lparr> lectures = [], qrcodes = [], attendances = [] \<rparr>"

inductive reachable :: "code_query \<Rightarrow> store \<Rightarrow> bool" for query :: code_query where
  start: "reachable query emptyStore"
| issue: "reachable query st \<Longrightarrow> reachable query (snd (generateQRCode st d minutes env))"
| scanned: "reachable query st \<Longrightarrow> reachable query (snd (scanUsing query st r))"
| revoke: "reachable query st \<Longrightarrow> reachable query (snd (deactivateQRCode st i t))"
| override: "reachable query st \<Longrightarrow> reachable query (snd (updateAttendanceStatus st req))"
| overrideHandler:
    "reachable query st \<Longrightarrow>
     reachable query (snd (attendanceStatusHandler st user i status n))"

section \<open>Example data\<close>

text \<open>
  A lecture on day 0 from 09:00 to 10:00 (32400000 to 36000000 milliseconds) for two
  students, a lecture of ten minutes, and a code for the first.
\<close>

definition exLecture :: lecture where
  "exLecture = \<lparr> lec_id = 1, lecturerId = 10, lecturerName = ''Ada'', unitName = ''Logic'',
     unitCode = ''CS101'', lec_date = 0, startTime = ''09:00'', endTime = ''10:00'',
     venue = ''Hall A'', qrCodeId = Some 2, lec_status = Ongoing, attendanceCount = 0,
     totalStudents = 2, description = [], lec_isActive = True \<rparr>"

definition shortLecture :: lecture where
  "shortLecture = exLecture\<lparr>endTime := ''09:10''\<rparr>"

definition exCode :: qrcode where
  "exCode = \<lparr> qr_id = 2, qr_lectureId = 1, uniqueCode = ''abc'', qrCodeImage = ''img'',
     expiresAt = 40000000, qr_isActive = True, scanCount = 0, maxScans = 2 \<rparr>"

definition exStore :: store where
  "exStore = \<lparr> lectures = [exLecture], qrcodes = [exCode], attendances = [] \<rparr>"

text \<open>A scan request for the example code by a student at a time, with a fresh entry id.\<close>

definition exRequest :: "oid \<Rightarrow> date \<Rightarrow> oid \<Rightarrow> scan_request" where
  "exRequest student t i =
     \<lparr> rq_code = ''abc'', rq_user = student, rq_device = ''phone'', rq_queryTime = t,
       rq_now = t, rq_env = \<lparr> re_now = t, re_attendanceId = i, re_lookupFault = None \<rparr> \<rparr>"

text \<open>The example store after student 7 scanned at 09:00.\<close>

definition afterFirstScan :: store where
  "afterFirstScan = snd (scanUsing specCodeQuery exStore (exRequest 7 32400000 3))"

text \<open>A store whose only code is active and unexpired and has used up its two scans.\<close>

definition exhaustedStore :: store where
  "exhaustedStore = exStore\<lparr>qrcodes := [exCode\<lparr>scanCount := 2\<rparr>]\<rparr>"

text \<open>
  The environment of a recording at a time with a fresh entry id; the example store
  without its lecture; the data and the environment of an issuance.
\<close>

definition exRecordEnv :: "date \<Rightarrow> oid \<Rightarrow> record_env" where
  "exRecordEnv t i = \<lparr> re_now = t, re_attendanceId = i, re_lookupFault = None \<rparr>"

definition lectureGoneStore :: store where
  "lectureGoneStore = exStore\<lparr>lectures := []\<rparr>"

definition exLectureData :: lecture_data where
  "exLectureData = \<lparr> ld_lecturerId = 10, ld_lecturerName = ''Ada'', ld_unitName = ''Logic'',
     ld_unitCode = ''cs101'', ld_date = 0, ld_startTime = ''09:00'', ld_endTime = ''10:00'',
     ld_venue = ''Hall A'', ld_totalStudents = 2, ld_description = [], ld_status = Ongoing \<rparr>"

definition exIssueEnv :: issue_env where
  "exIssueEnv = \<lparr> ie_now = 30000000, ie_lectureId = 1, ie_uniqueCode = ''abc'',
     ie_image = Inr ''img'', ie_qrCodeId = 2 \<rparr>"


section \<open>Times of day\<close>

lemma isDigit_digitVal: "isDigit c \<Longrightarrow> 0 \<le> digitVal c \<and> digitVal c \<le> 9"
  by (auto simp: isDigit_def digitVal_def)

lemma isDigit_not_colon: "isDigit c \<Longrightarrow> c \<noteq> CHR '':''"
  by (auto simp: isDigit_def)

lemma tens_digit: "m \<in> set ''012345'' \<Longrightarrow> isDigit m \<and> digitVal m \<le> 5"
  by (auto simp: isDigit_def digitVal_def)

lemma hour_tens_01: "h \<in> set ''01'' \<Longrightarrow> isDigit h \<and> digitVal h \<le> 1"
  by (auto simp: isDigit_def digitVal_def)

lemma hour_units_0123: "h \<in> set ''0123'' \<Longrightarrow> isDigit h \<and> digitVal h \<le> 3"
  by (auto simp: isDigit_def digitVal_def)

lemma hour_tens_2: "isDigit CHR ''2'' \<and> digitVal CHR ''2'' = 2"
  by (simp add: isDigit_def digitVal_def)

lemma toNumber_1: "isDigit a \<Longrightarrow> toNumber [a] = Some (digitVal a)"
  by (simp add: toNumber_def)

lemma toNumber_2:
  "isDigit a \<Longrightarrow> isDigit b \<Longrightarrow> toNumber [a, b] = Some (10 * digitVal a + digitVal b)"
  by (simp add: toNumber_def)

lemma split_colon_4:
  "isDigit h \<Longrightarrow> isDigit m1 \<Longrightarrow> isDigit m2 \<Longrightarrow>
   split_colon [h, CHR '':'', m1, m2] = [[h], [m1, m2]]"
  by (simp add: isDigit_not_colon)

lemma split_colon_5:
  "isDigit h1 \<Longrightarrow> isDigit h2 \<Longrightarrow> isDigit m1 \<Longrightarrow> isDigit m2 \<Longrightarrow>
   split_colon [h1, h2, CHR '':'', m1, m2] = [[h1, h2], [m1, m2]]"
  by (simp add: isDigit_not_colon)

text \<open>
  A string of the schema's time format splits into an hour below 24 and a minute
  below 60, both numbers.
\<close>

lemma timeFormat_parts:
  assumes "timeFormat t"
  shows "\<exists>h m. 0 \<le> h \<and> h < 24 \<and> 0 \<le> m \<and> m < 60
           \<and> Option.bind (at_index (split_colon t) 0) toNumber = Some h
           \<and> Option.bind (at_index (split_colon t) 1) toNumber = Some m"
  using assms
proof (cases rule: timeFormat.elims(2))
  case (1 h c m1 m2)
  then have d: "isDigit h" "isDigit m1" "isDigit m2" "digitVal m1 \<le> 5" and c: "c = CHR '':''"
    using tens_digit by auto
  have sp: "split_colon t = [[h], [m1, m2]]"
    using 1(1) c split_colon_4 [OF d(1) d(2) d(3)] by simp
  have b: "0 \<le> digitVal h" "digitVal h \<le> 9" "0 \<le> digitVal m1" "0 \<le> digitVal m2"
    "digitVal m2 \<le> 9"
    using d isDigit_digitVal by auto
  show ?thesis
    apply (rule exI [of _ "digitVal h"])
    apply (rule exI [of _ "10 * digitVal m1 + digitVal m2"])
    using b d by (simp add: sp at_index_def toNumber_1 toNumber_2)
next
  case (2 h1 h2 c m1 m2)
  then have m: "isDigit m1" "isDigit m2" "digitVal m1 \<le> 5" and c: "c = CHR '':''"
    using tens_digit by auto
  from 2 have hh: "isDigit h1 \<and> isDigit h2 \<and> 10 * digitVal h1 + digitVal h2 \<le> 23"
  proof -
    from 2 consider "h1 \<in> set ''01''" "isDigit h2" | "h1 = CHR ''2''" "h2 \<in> set ''0123''"
      by blast
    then show ?thesis
    proof cases
      case 1
      then show ?thesis using hour_tens_01 [of h1] isDigit_digitVal [of h2] by auto
    next
      case 2
      then show ?thesis using hour_tens_2 hour_units_0123 [of h2] by auto
    qed
  qed
  have sp: "split_colon t = [[h1, h2], [m1, m2]]"
    using 2(1) c split_colon_5 [of h1 h2 m1 m2] hh m by simp
  have b: "0 \<le> digitVal h1" "0 \<le> digitVal h2" "0 \<le> digitVal m1" "0 \<le> digitVal m2"
    "digitVal m2 \<le> 9"
    using hh m isDigit_digitVal by auto
  show ?thesis
    apply (rule exI [of _ "10 * digitVal h1 + digitVal h2"])
    apply (rule exI [of _ "10 * digitVal m1 + digitVal m2"])
    using b hh m by (simp add: sp at_index_def toNumber_2)
qed

text \<open>
  So the start and the end of a lecture that passed the schema's validation are valid
  dates: the lecture's day plus the hours and minutes of the string.
\<close>

lemma timeFormat_setHours:
  assumes "timeFormat t"
  shows "\<exists>h m. 0 \<le> h \<and> h < 24 \<and> 0 \<le> m \<and> m < 60
           \<and> setHours d (at_index (split_colon t) 0) (at_index (split_colon t) 1)
               = Some (startOfDay d + h * 3600000 + m * 60000)"
proof -
  from timeFormat_parts [OF assms] obtain h m where
    "0 \<le> h" "h < 24" "0 \<le> m" "m < 60"
    "Option.bind (at_index (split_colon t) 0) toNumber = Some h"
    "Option.bind (at_index (split_colon t) 1) toNumber = Some m"
    by blast
  then show ?thesis
    by (auto simp: setHours_def msPerHour_def msPerMinute_def)
qed

lemma lectureStart_valid:
  "timeFormat (startTime l) \<Longrightarrow> \<exists>h m. 0 \<le> h \<and> h < 24 \<and> 0 \<le> m \<and> m < 60
     \<and> lectureStart l = Some (startOfDay (lec_date l) + h * 3600000 + m * 60000)"
  using timeFormat_setHours [of "startTime l" "lec_date l"] by (simp add: lectureStart_def Let_def)

lemma lectureEnd_valid:
  "timeFormat (endTime l) \<Longrightarrow> \<exists>h m. 0 \<le> h \<and> h < 24 \<and> 0 \<le> m \<and> m < 60
     \<and> lectureEnd l = Some (startOfDay (lec_date l) + h * 3600000 + m * 60000)"
  using timeFormat_setHours [of "endTime l" "lec_date l"] by (simp add: lectureEnd_def Let_def)

section \<open>Lookups by id\<close>

lemma find_code_map:
  "(\<And>q. qr_id (f q) = qr_id q) \<Longrightarrow>
   find (\<lambda>q. qr_id q = i) (map (\<lambda>q. if qr_id q = i then f q else q) xs)
     = map_option f (find (\<lambda>q. qr_id q = i) xs)"
  by (induction xs) auto

lemma find_entry_map:
  "(\<And>a. att_id (f a) = att_id a) \<Longrightarrow>
   find (\<lambda>a. att_id a = i) (map (\<lambda>a. if att_id a = i then f a else a) xs)
     = map_option f (find (\<lambda>a. att_id a = i) xs)"
  by (induction xs) auto

lemma QRCode_findById_id: "QRCode_findById st i = Some q \<Longrightarrow> qr_id q = i"
  by (auto simp: QRCode_findById_def dest: find_Some_iff [THEN iffD1])

lemma Attendance_findById_id: "Attendance_findById st i = Some a \<Longrightarrow> att_id a = i"
  by (auto simp: Attendance_findById_def dest: find_Some_iff [THEN iffD1])

section \<open>Classification of a scan\<close>

lemma classify_valid:
  "classify t (Some s) (Some e) =
     (if t > e then Absent else if t > s + 15 * 60000 then Late else Present)"
  by (simp add: classify_def date_gt_def date_plus_def)

lemma exLecture_start: "lectureStart exLecture = Some 32400000"
  by code_simp

lemma exLecture_end: "lectureEnd exLecture = Some 36000000"
  by code_simp

lemma shortLecture_start: "lectureStart shortLecture = Some 32400000"
  by code_simp

lemma shortLecture_end: "lectureEnd shortLecture = Some 33000000"
  by code_simp

text \<open>
  C4, as amended. When a new entry is saved and its lecture is found, with start \<open>s\<close> and
  end \<open>e\<close>, the status is a function of the scan time, \<open>s\<close> and \<open>e\<close> alone: absent after
  \<open>e\<close>, else late after \<open>s\<close> + 15 minutes, else present. A scan at exactly \<open>s\<close> + 15 minutes
  is present when the lecture does not end before that instant, and a scan at exactly
  \<open>e\<close> is late when the lecture lasts longer than 15 minutes; in a lecture of 15 minutes
  or less a scan at exactly \<open>e\<close> is present.
\<close>

theorem classification_at_creation:
  assumes "lectureStart l = Some s" and "lectureEnd l = Some e"
  shows "att_status (Attendance_preSave True (Inr (Some l)) a)
           = (if scanTime a > e then Absent
              else if scanTime a > s + 15 * 60000 then Late else Present)
         \<and> (s + 15 * 60000 \<le> e \<longrightarrow> scanTime a = s + 15 * 60000 \<longrightarrow>
              att_status (Attendance_preSave True (Inr (Some l)) a) = Present)
         \<and> (s + 15 * 60000 < e \<longrightarrow> scanTime a = e \<longrightarrow>
              att_status (Attendance_preSave True (Inr (Some l)) a) = Late)
         \<and> (e \<le> s + 15 * 60000 \<longrightarrow> scanTime a = e \<longrightarrow>
              att_status (Attendance_preSave True (Inr (Some l)) a) = Present)"
  using assms by (simp add: Attendance_preSave_def classify_valid)

text \<open>
  The lecture from 09:00 to 10:00: a scan at 09:15 sharp (33300000) is present, a scan
  at 10:00 sharp is late.
\<close>

theorem classification_at_creation_witness:
  "lectureStart exLecture = Some 32400000 \<and> lectureEnd exLecture = Some 36000000
   \<and> att_status (Attendance_preSave True (Inr (Some exLecture))
        (new_Attendance 3 7 1 2 ''phone'' 33300000)) = Present
   \<and> att_status (Attendance_preSave True (Inr (Some exLecture))
        (new_Attendance 3 7 1 2 ''phone'' 36000000)) = Late"
  using classification_at_creation [OF exLecture_start exLecture_end,
      of "new_Attendance 3 7 1 2 ''phone'' 33300000"]
    classification_at_creation [OF exLecture_start exLecture_end,
      of "new_Attendance 3 7 1 2 ''phone'' 36000000"]
    exLecture_start exLecture_end
  by (simp add: new_Attendance_def)

text \<open>
  C4 as it was stated fails on the lecture from 09:00 to 09:10: a scan at exactly its
  end (33000000) is not late, it is present.
\<close>

theorem scan_at_end_of_short_lecture_not_late:
  "lectureEnd shortLecture = Some 33000000
   \<and> scanTime (new_Attendance 3 7 1 2 ''phone'' 33000000) = 33000000
   \<and> att_status (Attendance_preSave True (Inr (Some shortLecture))
        (new_Attendance 3 7 1 2 ''phone'' 33000000)) \<noteq> Late
   \<and> att_status (Attendance_preSave True (Inr (Some shortLecture))
        (new_Attendance 3 7 1 2 ''phone'' 33000000)) = Present"
  by (simp add: Attendance_preSave_def classify_valid shortLecture_start shortLecture_end
      new_Attendance_def)

section \<open>The validator\<close>

lemma validateUsing_reads: "snd (validateUsing query st code student queryTime now) = st"
  by (simp add: validateUsing_def Let_def split: sum.splits option.splits)

lemma validateUsing_Valid:
  "fst (validateUsing query st code student queryTime now) = Inr (Valid qrCode lecture)
   \<Longrightarrow> query st code queryTime = Inr (Some qrCode)"
  by (auto simp: validateUsing_def Let_def split: sum.splits option.splits if_splits)

text \<open>
  The window check, when the validator reaches it: the scan is valid from the lecture's
  start minus 30 minutes to its end plus 15 minutes, both included.
\<close>

lemma window_check:
  assumes "query st code queryTime = Inr (Some qrCode)"
    and "Lecture_findById st (qr_lectureId qrCode) = Some lecture"
    and "lec_isActive lecture"
    and "Attendance_findOne st student (lec_id lecture) = None"
    and "lectureStart lecture = Some s" and "lectureEnd lecture = Some e"
  shows "fst (validateUsing query st code student queryTime now) =
           (if s - 30 * 60000 \<le> now \<and> now \<le> e + 15 * 60000
            then Inr (Valid qrCode lecture) else Inr (Invalid msgOutsideWindow))"
  using assms
  by (auto simp: validateUsing_def Let_def date_plus_def date_lt_def date_gt_def)

section \<open>The token budget\<close>

lemma recordAttendance_codes:
  "qrcodes (snd (recordAttendance st qrCode lecture student device env)) = qrcodes st
   \<or> qrcodes (snd (recordAttendance st qrCode lecture student device env)) =
       map (\<lambda>q. if qr_id q = qr_id qrCode
                 then q\<lparr>scanCount := scanCount qrCode + 1,
                        qr_isActive := (if scanCount qrCode + 1 \<ge> maxScans qrCode then False
                                        else qr_isActive q)\<rparr>
                 else q) (qrcodes st)"
  by (auto simp: recordAttendance_def Let_def Attendance_save_new_def QRCode_save_def
      Lecture_save_def split: sum.splits prod.splits if_splits)


lemma same_id_same_code:
  "distinct (map qr_id xs) \<Longrightarrow> q \<in> set xs \<Longrightarrow> q' \<in> set xs \<Longrightarrow> qr_id q = qr_id q' \<Longrightarrow> q = q'"
  by (meson distinct_map inj_onD)

lemma recordAttendance_ids:
  "map qr_id (qrcodes (snd (recordAttendance st qrCode lecture student device env)))
     = map qr_id (qrcodes st)"
  using recordAttendance_codes [of st qrCode lecture student device env]
  by (auto simp: o_def intro!: map_idI [symmetric])

lemma recordAttendance_step:
  assumes "distinct_code_ids st" and "qrCode \<in> set (qrcodes st)"
    and "scanCount qrCode < maxScans qrCode"
    and "q' \<in> set (qrcodes (snd (recordAttendance st qrCode lecture student device env)))"
    and "q \<in> set (qrcodes st)" and "qr_id q' = qr_id q"
  shows "q' = q \<or> (q = qrCode \<and> scanCount q' = scanCount q + 1 \<and> maxScans q' = maxScans q
            \<and> scanCount q' \<le> maxScans q'
            \<and> (scanCount q' = maxScans q' \<longrightarrow> \<not> qr_isActive q'))"
proof -
  from recordAttendance_codes [of st qrCode lecture student device env]
  show ?thesis
  proof
    assume same: "qrcodes (snd (recordAttendance st qrCode lecture student device env)) = qrcodes st"
    with assms have "q' = q"
      using same_id_same_code [of "qrcodes st" q' q] by (simp add: distinct_code_ids_def)
    then show ?thesis by simp
  next
    assume upd: "qrcodes (snd (recordAttendance st qrCode lecture student device env)) =
       map (\<lambda>q. if qr_id q = qr_id qrCode
                 then q\<lparr>scanCount := scanCount qrCode + 1,
                        qr_isActive := (if scanCount qrCode + 1 \<ge> maxScans qrCode then False
                                        else qr_isActive q)\<rparr>
                 else q) (qrcodes st)"
    from assms(4) obtain x where x: "x \<in> set (qrcodes st)"
      and q': "q' = (if qr_id x = qr_id qrCode
                 then x\<lparr>scanCount := scanCount qrCode + 1,
                        qr_isActive := (if scanCount qrCode + 1 \<ge> maxScans qrCode then False
                                        else qr_isActive x)\<rparr>
                 else x)"
      unfolding upd by auto
    have idx: "qr_id q' = qr_id x" using q' by simp
    have xq: "x = q"
      using same_id_same_code [of "qrcodes st" x q] assms(1,5,6) x idx
      by (simp add: distinct_code_ids_def)
    show ?thesis
    proof (cases "qr_id x = qr_id qrCode")
      case False
      then show ?thesis using q' xq by simp
    next
      case True
      then have "x = qrCode"
        using same_id_same_code [of "qrcodes st" x qrCode] assms(1,2) x
        by (simp add: distinct_code_ids_def)
      then show ?thesis using q' xq True assms(3) by auto
    qed
  qed
qed

lemma scanUsing_codes:
  "snd (scanUsing query st r) = st
   \<or> (\<exists>qrCode lecture. query st (rq_code r) (rq_queryTime r) = Inr (Some qrCode)
        \<and> snd (scanUsing query st r)
           = snd (recordAttendance st qrCode lecture (rq_user r) (rq_device r) (rq_env r)))"
proof (cases "fst (validateUsing query st (rq_code r) (rq_user r) (rq_queryTime r) (rq_now r))")
  case (Inl e)
  then show ?thesis
    using validateUsing_reads [of query st "rq_code r" "rq_user r" "rq_queryTime r" "rq_now r"]
    by (auto simp: scanUsing_def split: prod.splits)
next
  case (Inr v)
  show ?thesis
  proof (cases v)
    case (Invalid m)
    with Inr show ?thesis
      using validateUsing_reads [of query st "rq_code r" "rq_user r" "rq_queryTime r" "rq_now r"]
      by (auto simp: scanUsing_def split: prod.splits)
  next
    case (Valid qrCode lecture)
    with Inr have "query st (rq_code r) (rq_queryTime r) = Inr (Some qrCode)"
      using validateUsing_Valid by blast
    moreover from Inr Valid have "snd (scanUsing query st r)
        = snd (recordAttendance st qrCode lecture (rq_user r) (rq_device r) (rq_env r))"
      using validateUsing_reads [of query st "rq_code r" "rq_user r" "rq_queryTime r" "rq_now r"]
      by (auto simp: scanUsing_def split: prod.splits sum.splits)
    ultimately show ?thesis by blast
  qed
qed


lemma scanUsing_step:
  assumes "query_sound query" and "distinct_code_ids st"
    and "q' \<in> set (qrcodes (snd (scanUsing query st r)))"
    and "q \<in> set (qrcodes st)" and "qr_id q' = qr_id q"
  shows "q' = q \<or> (scanCount q' = scanCount q + 1 \<and> maxScans q' = maxScans q
            \<and> scanCount q' \<le> maxScans q'
            \<and> (scanCount q' = maxScans q' \<longrightarrow> \<not> qr_isActive q'))"
proof -
  from scanUsing_codes [of query st r] show ?thesis
  proof
    assume "snd (scanUsing query st r) = st"
    with assms have "q' = q"
      using same_id_same_code [of "qrcodes st" q' q] by (simp add: distinct_code_ids_def)
    then show ?thesis by simp
  next
    assume "\<exists>qrCode lecture. query st (rq_code r) (rq_queryTime r) = Inr (Some qrCode)
        \<and> snd (scanUsing query st r)
           = snd (recordAttendance st qrCode lecture (rq_user r) (rq_device r) (rq_env r))"
    then obtain qrCode lecture where
      found: "query st (rq_code r) (rq_queryTime r) = Inr (Some qrCode)"
      and eq: "snd (scanUsing query st r)
           = snd (recordAttendance st qrCode lecture (rq_user r) (rq_device r) (rq_env r))"
      by blast
    from found assms(1) have "qrCode \<in> set (qrcodes st)" "scanCount qrCode < maxScans qrCode"
      unfolding query_sound_def by blast+
    then show ?thesis
      using recordAttendance_step [of st qrCode q' lecture "rq_user r" "rq_device r" "rq_env r" q]
        assms(2-5) eq by auto
  qed
qed

lemma scanUsing_ids:
  "map qr_id (qrcodes (snd (scanUsing query st r))) = map qr_id (qrcodes st)"
  using scanUsing_codes [of query st r] recordAttendance_ids by auto

lemma scanUsing_invariant:
  assumes "query_sound query" and "distinct_code_ids st" and "budget_invariant st"
  shows "distinct_code_ids (snd (scanUsing query st r)) \<and> budget_invariant (snd (scanUsing query st r))"
proof
  show "distinct_code_ids (snd (scanUsing query st r))"
    using assms(2) scanUsing_ids [of query st r] by (simp add: distinct_code_ids_def)
  show "budget_invariant (snd (scanUsing query st r))"
    unfolding budget_invariant_def
  proof
    fix q' assume q': "q' \<in> set (qrcodes (snd (scanUsing query st r)))"
    then have "qr_id q' \<in> set (map qr_id (qrcodes st))"
      using scanUsing_ids [of query st r] by (metis image_eqI set_map)
    then obtain q where q: "q \<in> set (qrcodes st)" "qr_id q' = qr_id q" by auto
    from scanUsing_step [OF assms(1,2) q' q] assms(3) q(1)
    show "scanCount q' \<le> maxScans q'" by (auto simp: budget_invariant_def)
  qed
qed

lemma scansUsing_invariant:
  "query_sound query \<Longrightarrow> distinct_code_ids st \<Longrightarrow> budget_invariant st \<Longrightarrow>
   distinct_code_ids (scansUsing query st rs) \<and> budget_invariant (scansUsing query st rs)"
proof (induction rs arbitrary: st)
  case Nil
  then show ?case by (simp add: scansUsing_def)
next
  case (Cons r rs)
  from scanUsing_invariant [OF Cons.prems, of r]
  have "distinct_code_ids (scansUsing query (snd (scanUsing query st r)) rs)
      \<and> budget_invariant (scansUsing query (snd (scanUsing query st r)) rs)"
    using Cons.IH [OF Cons.prems(1)] by blast
  then show ?case by (simp add: scansUsing_def)
qed

lemma findActiveCode_throws:
  "findActiveCode st code t = Inl (castError ''$maxScans'' ''scanCount'' ''QRCode'')"
  by (simp add: findActiveCode_def QRCode_findOne_def castQueryNumber_def toNumber_def isDigit_def)

lemma findActiveCode_sound: "query_sound findActiveCode"
  by (simp add: query_sound_def findActiveCode_throws)

lemma specCodeQuery_sound: "query_sound specCodeQuery"
  unfolding query_sound_def specCodeQuery_def
  by (auto dest: find_Some_iff [THEN iffD1] simp: in_set_conv_nth)


lemma generateQRCode_codes:
  "qrcodes (snd (generateQRCode st d minutes env)) = qrcodes st
   \<or> (\<exists>q. qrcodes (snd (generateQRCode st d minutes env)) = qrcodes st @ [q]
          \<and> QRCode_validate q = [] \<and> QRCode_findById st (qr_id q) = None \<and> scanCount q = 0)"
  by (auto simp: generateQRCode_def Let_def Lecture_save_new_def QRCode_save_new_def
      Lecture_save_def QRCode_findById_def split: sum.splits if_splits)

lemma valid_code_limit: "QRCode_validate q = [] \<Longrightarrow> 1 \<le> maxScans q"
  by (auto simp: QRCode_validate_def split: if_splits)

lemma fresh_code_id: "QRCode_findById st i = None \<Longrightarrow> i \<notin> qr_id ` set (qrcodes st)"
  by (auto simp: QRCode_findById_def find_None_iff)

lemma generateQRCode_invariant:
  assumes "distinct_code_ids st" and "budget_invariant st"
  shows "distinct_code_ids (snd (generateQRCode st d minutes env))
       \<and> budget_invariant (snd (generateQRCode st d minutes env))"
proof -
  from generateQRCode_codes [of st d minutes env] show ?thesis
  proof
    assume "qrcodes (snd (generateQRCode st d minutes env)) = qrcodes st"
    then show ?thesis using assms by (simp add: distinct_code_ids_def budget_invariant_def)
  next
    assume "\<exists>q. qrcodes (snd (generateQRCode st d minutes env)) = qrcodes st @ [q]
          \<and> QRCode_validate q = [] \<and> QRCode_findById st (qr_id q) = None \<and> scanCount q = 0"
    then obtain q where q: "qrcodes (snd (generateQRCode st d minutes env)) = qrcodes st @ [q]"
      "QRCode_validate q = []" "QRCode_findById st (qr_id q) = None" "scanCount q = 0"
      by blast
    have "1 \<le> maxScans q" by (rule valid_code_limit [OF q(2)])
    moreover have "qr_id q \<notin> qr_id ` set (qrcodes st)" by (rule fresh_code_id [OF q(3)])
    ultimately show ?thesis
      using assms q(1,4) by (simp add: distinct_code_ids_def budget_invariant_def)
  qed
qed

lemma deactivateQRCode_codes:
  "qrcodes (snd (deactivateQRCode st i t)) = qrcodes st
   \<or> qrcodes (snd (deactivateQRCode st i t))
       = map (\<lambda>q. if qr_id q = i then q\<lparr>qr_isActive := False, expiresAt := t\<rparr> else q)
           (qrcodes st)"
  by (auto simp: deactivateQRCode_def Let_def QRCode_save_def dest: QRCode_findById_id
      split: option.splits sum.splits if_splits)

lemma deactivateQRCode_invariant:
  assumes "distinct_code_ids st" and "budget_invariant st"
  shows "distinct_code_ids (snd (deactivateQRCode st i t))
       \<and> budget_invariant (snd (deactivateQRCode st i t))"
proof -
  have ids: "map qr_id (map (\<lambda>q. if qr_id q = i then q\<lparr>qr_isActive := False, expiresAt := t\<rparr>
                else q) (qrcodes st)) = map qr_id (qrcodes st)"
    by (simp add: o_def if_distrib cong: if_cong)
  from deactivateQRCode_codes [of st i t] show ?thesis
  proof
    assume "qrcodes (snd (deactivateQRCode st i t)) = qrcodes st"
    then show ?thesis using assms by (simp add: distinct_code_ids_def budget_invariant_def)
  next
    assume "qrcodes (snd (deactivateQRCode st i t))
       = map (\<lambda>q. if qr_id q = i then q\<lparr>qr_isActive := False, expiresAt := t\<rparr> else q)
           (qrcodes st)"
    then have "map qr_id (qrcodes (snd (deactivateQRCode st i t))) = map qr_id (qrcodes st)"
      and "\<forall>q \<in> set (qrcodes (snd (deactivateQRCode st i t))).
             \<exists>x \<in> set (qrcodes st). scanCount q = scanCount x \<and> maxScans q = maxScans x"
      using ids by auto
    then show ?thesis
      using assms unfolding distinct_code_ids_def budget_invariant_def by fastforce
  qed
qed

lemma attendanceStatusHandler_codes:
  "qrcodes (snd (attendanceStatusHandler st user i status n)) = qrcodes st"
  by (auto simp: attendanceStatusHandler_def Let_def Attendance_save_def
      split: option.splits sum.splits if_splits)

lemma updateAttendanceStatus_unanswered: "updateAttendanceStatus st req = (NoResponse, st)"
  by (simp add: updateAttendanceStatus_def ruleMiddleware_def uncalled_def)

lemma emptyStore_invariant: "distinct_code_ids emptyStore \<and> budget_invariant emptyStore"
  by (simp add: distinct_code_ids_def budget_invariant_def emptyStore_def)

text \<open>
  Every store that the operations build from the empty store has unique code ids and
  no code over its limit.
\<close>

lemma reachable_invariant:
  assumes "query_sound query" and "reachable query st"
  shows "distinct_code_ids st \<and> budget_invariant st"
  using assms(2)
proof (induction rule: reachable.induct)
  case start
  show ?case by (rule emptyStore_invariant)
next
  case (issue st d minutes env)
  then show ?case using generateQRCode_invariant by blast
next
  case (scanned st r)
  then show ?case using scanUsing_invariant [OF assms(1)] by blast
next
  case (revoke st i t)
  then show ?case using deactivateQRCode_invariant by blast
next
  case (override st req)
  then show ?case by (simp add: updateAttendanceStatus_unanswered)
next
  case (overrideHandler st user i status n)
  then show ?case
    by (simp add: distinct_code_ids_def budget_invariant_def attendanceStatusHandler_codes)
qed

text \<open>
  C1. Scan requests are served one after the other, each a validation followed, when
  the validation says valid, by the recording. For every query for the code that
  returns only stored codes below their limit, for every store with unique code ids in
  which no code exceeds its limit, and for every sequence of requests: no code exceeds
  its limit afterwards; the same holds with the query the code sends; and in any
  further request a code either stays as it is or its counter grows by one, stays
  within the limit, and, when it reaches the limit, the code is inactive in the store
  that this request leaves. The limit is also kept in every store that issuing,
  scanning, revoking and overriding build from the empty store.
\<close>

theorem budget_never_exceeded:
  assumes "query_sound query" and "distinct_code_ids st" and "budget_invariant st"
  shows "budget_invariant (scansUsing query st rs)
       \<and> budget_invariant (scansUsing findActiveCode st rs)
       \<and> (\<forall>q' \<in> set (qrcodes (snd (scanUsing query (scansUsing query st rs) r))).
            \<forall>q \<in> set (qrcodes (scansUsing query st rs)).
              qr_id q' = qr_id q \<longrightarrow>
                q' = q \<or> (scanCount q' = scanCount q + 1 \<and> maxScans q' = maxScans q
                           \<and> scanCount q' \<le> maxScans q'
                           \<and> (scanCount q' = maxScans q' \<longrightarrow> \<not> qr_isActive q')))
       \<and> (reachable query st' \<longrightarrow> budget_invariant st')"
proof (intro conjI ballI impI)
  show "budget_invariant (scansUsing query st rs)"
    using scansUsing_invariant [OF assms] by simp
  show "budget_invariant st'" if "reachable query st'"
    using reachable_invariant [OF assms(1) that] by simp
  show "budget_invariant (scansUsing findActiveCode st rs)"
    using scansUsing_invariant [OF findActiveCode_sound assms(2,3)] by simp
next
  fix q' q
  assume "q' \<in> set (qrcodes (snd (scanUsing query (scansUsing query st rs) r)))"
    and "q \<in> set (qrcodes (scansUsing query st rs))" and "qr_id q' = qr_id q"
  moreover have "distinct_code_ids (scansUsing query st rs)"
    using scansUsing_invariant [OF assms] by simp
  ultimately show "q' = q \<or> (scanCount q' = scanCount q + 1 \<and> maxScans q' = maxScans q
                           \<and> scanCount q' \<le> maxScans q'
                           \<and> (scanCount q' = maxScans q' \<longrightarrow> \<not> qr_isActive q'))"
    using scanUsing_step [OF assms(1)] by blast
qed

lemma exStore_distinct: "distinct_code_ids exStore"
  by code_simp

lemma exStore_budget: "budget_invariant exStore"
  by code_simp

lemma three_scans:
  "qrcodes (scansUsing specCodeQuery exStore
      [exRequest 7 32400000 3, exRequest 8 32500000 4, exRequest 9 32600000 5])
     = [exCode\<lparr>scanCount := 2, qr_isActive := False\<rparr>]"
  by code_simp

lemma one_scan:
  "qrcodes (scansUsing specCodeQuery exStore [exRequest 7 32400000 3])
     = [exCode\<lparr>scanCount := 1\<rparr>]"
  by code_simp

text \<open>
  With the query of the specification on the example store (limit 2): the first scan
  brings the counter to 1, the second to 2 and switches the code off, the third is
  refused.
\<close>

theorem budget_never_exceeded_witness:
  "distinct_code_ids exStore \<and> budget_invariant exStore
   \<and> budget_invariant (scansUsing specCodeQuery exStore
        [exRequest 7 32400000 3, exRequest 8 32500000 4, exRequest 9 32600000 5])
   \<and> qrcodes (scansUsing specCodeQuery exStore [exRequest 7 32400000 3])
        = [exCode\<lparr>scanCount := 1\<rparr>]
   \<and> qrcodes (scansUsing specCodeQuery exStore
        [exRequest 7 32400000 3, exRequest 8 32500000 4, exRequest 9 32600000 5])
        = [exCode\<lparr>scanCount := 2, qr_isActive := False\<rparr>]"
  using budget_never_exceeded [OF specCodeQuery_sound exStore_distinct exStore_budget,
      of "[exRequest 7 32400000 3, exRequest 8 32500000 4, exRequest 9 32600000 5]"]
    exStore_distinct exStore_budget three_scans one_scan
  by blast

section \<open>Validation leaves the store alone\<close>

text \<open>
  C6. Whatever the inputs and whatever the query for the code returns, validation hands
  the store back unchanged, be the result valid, invalid or a thrown error; so does
  \<open>validateQRCode\<close>, the validator with the query of the code. A request whose validation
  says invalid, or throws, is answered with the message and leaves the store, and with
  it every counter, as it was.
\<close>

theorem validation_is_pure:
  "snd (validateUsing query st code student queryTime now) = st
   \<and> snd (validateQRCode st code student queryTime now) = st
   \<and> (\<forall>m. fst (validateUsing query st (rq_code r) (rq_user r) (rq_queryTime r) (rq_now r))
              = Inr (Invalid m)
          \<longrightarrow> scanUsing query st r = (Failure 400 m, st))
   \<and> (\<forall>e. fst (validateUsing query st (rq_code r) (rq_user r) (rq_queryTime r) (rq_now r))
              = Inl e
          \<longrightarrow> scanUsing query st r = (Failure 400 (err_message e), st))"
proof (intro conjI allI impI)
  show "snd (validateUsing query st code student queryTime now) = st"
    by (rule validateUsing_reads)
  show "snd (validateQRCode st code student queryTime now) = st"
    by (simp add: validateQRCode_def validateUsing_reads)
next
  fix m
  assume "fst (validateUsing query st (rq_code r) (rq_user r) (rq_queryTime r) (rq_now r))
            = Inr (Invalid m)"
  then show "scanUsing query st r = (Failure 400 m, st)"
    using validateUsing_reads [of query st "rq_code r" "rq_user r" "rq_queryTime r" "rq_now r"]
    by (auto simp: scanUsing_def split: prod.splits)
next
  fix e
  assume "fst (validateUsing query st (rq_code r) (rq_user r) (rq_queryTime r) (rq_now r))
            = Inl e"
  then show "scanUsing query st r = (Failure 400 (err_message e), st)"
    using validateUsing_reads [of query st "rq_code r" "rq_user r" "rq_queryTime r" "rq_now r"]
    by (auto simp: scanUsing_def split: prod.splits)
qed

lemma afterFirstScan_codes: "qrcodes afterFirstScan = [exCode\<lparr>scanCount := 1\<rparr>]"
  by code_simp

lemma duplicate_rejected:
  "fst (validateUsing specCodeQuery afterFirstScan (rq_code (exRequest 7 32500000 4))
     (rq_user (exRequest 7 32500000 4)) (rq_queryTime (exRequest 7 32500000 4))
     (rq_now (exRequest 7 32500000 4))) = Inr (Invalid msgAlreadyMarked)"
  by code_simp

text \<open>
  Student 7 scans a second time: the answer is "already marked", the store is the one
  before the request, the counter of the code still 1.
\<close>

theorem validation_is_pure_witness:
  "qrcodes afterFirstScan = [exCode\<lparr>scanCount := 1\<rparr>]
   \<and> scanUsing specCodeQuery afterFirstScan (exRequest 7 32500000 4)
        = (Failure 400 msgAlreadyMarked, afterFirstScan)"
  using validation_is_pure [of specCodeQuery afterFirstScan "''abc''" 7 0 0
      "exRequest 7 32500000 4"] duplicate_rejected afterFirstScan_codes
  by blast

section \<open>The query the validator sends\<close>

text \<open>
  The operand \<open>'$maxScans'\<close> is a string that is no number: casting it fails, for every
  store and every input, and \<open>validateQRCode\<close> rethrows the error.
\<close>

lemma validateQRCode_throws:
  "validateQRCode st code student queryTime now =
     (Inl (rethrow ''QR code validation failed: ''
            (castError ''$maxScans'' ''scanCount'' ''QRCode'')), st)"
  by (simp add: validateQRCode_def validateUsing_def findActiveCode_throws)

text \<open>
  So, with the query the code sends, every scan request is answered with that message
  and leaves the store as it is.
\<close>

lemma scan_fails:
  "scan st r =
     (Failure 400 (err_message (rethrow ''QR code validation failed: ''
                      (castError ''$maxScans'' ''scanCount'' ''QRCode''))), st)"
  using validateQRCode_throws [of st "rq_code r" "rq_user r" "rq_queryTime r" "rq_now r"]
  by (simp add: scan_def scanUsing_def validateQRCode_def)

text \<open>
  C2 at a code that is active, unexpired and exhausted (2 of 2 scans): the code of the
  validator throws \<open>QR code validation failed: Cast to Number failed ...\<close> and does not
  return the rejection "invalid, expired, or has reached maximum scans"; with the query
  of the specification the validator returns that rejection.
\<close>

theorem exhausted_code_validation_throws:
  "fst (validateQRCode exhaustedStore ''abc'' 7 33000000 33000000)
     = Inl (JsError ''Error'' None
         (''QR code validation failed: Cast to Number failed for value ''
          @ [CHR 0x22] @ ''$maxScans'' @ [CHR 0x22] @ '' (type string) at path ''
          @ [CHR 0x22] @ ''scanCount'' @ [CHR 0x22] @ '' for model ''
          @ [CHR 0x22] @ ''QRCode'' @ [CHR 0x22]))
   \<and> fst (validateQRCode exhaustedStore ''abc'' 7 33000000 33000000)
       \<noteq> Inr (Invalid msgInvalidCode)
   \<and> fst (validateUsing specCodeQuery exhaustedStore ''abc'' 7 33000000 33000000)
       = Inr (Invalid msgInvalidCode)"
  by code_simp

section \<open>The scan window\<close>

text \<open>
  The window check is written with both bounds included (\<open>window_check\<close> above), but
  the validator reaches it only after its query returned a code.
\<close>

text \<open>
  C5 on the example store, whose code is fresh and whose lecture runs from 09:00 to
  10:00, for a student without an entry. At 08:30 sharp, the lower bound of the window,
  the validator does not accept the scan: it throws the cast failure of its query. At
  08:29:59, outside the window, it does not reject with the scan-window message either:
  it throws the same error. With the query of the specification in place of its own,
  the validator accepts the first scan and rejects the second with that message.
\<close>

theorem scan_at_window_bound_throws:
  "lectureStart exLecture = Some 32400000
   \<and> fst (validateQRCode exStore ''abc'' 7 30000000 (32400000 - 30 * 60000))
       = Inl (rethrow ''QR code validation failed: ''
                (castError ''$maxScans'' ''scanCount'' ''QRCode''))
   \<and> fst (validateQRCode exStore ''abc'' 7 30000000 (32400000 - 30 * 60000))
       \<noteq> Inr (Valid exCode exLecture)
   \<and> fst (validateQRCode exStore ''abc'' 7 30000000 (32400000 - 30 * 60000 - 1000))
       \<noteq> Inr (Invalid msgOutsideWindow)
   \<and> fst (validateUsing specCodeQuery exStore ''abc'' 7 30000000 (32400000 - 30 * 60000))
       = Inr (Valid exCode exLecture)
   \<and> fst (validateUsing specCodeQuery exStore ''abc'' 7 30000000 (32400000 - 30 * 60000 - 1000))
       = Inr (Invalid msgOutsideWindow)"
  by code_simp

section \<open>Recording a duplicate\<close>

lemma new_Attendance_valid:
  "Attendance_validate (new_Attendance i student lectureId codeId device t) = []"
  by (simp add: Attendance_validate_def new_Attendance_def)

lemma Attendance_preSave_keys:
  "att_id (Attendance_preSave isNew lookup a) = att_id a
   \<and> studentId (Attendance_preSave isNew lookup a) = studentId a
   \<and> att_lectureId (Attendance_preSave isNew lookup a) = att_lectureId a"
  by (simp add: Attendance_preSave_def split: sum.splits option.splits)

text \<open>
  C3, as amended. When the student already has an entry for the lecture at the time of
  the write, \<open>recordAttendance\<close> fails and writes nothing: the store is the one it was
  given, so the existing entry stands and no counter moves. What it throws is the
  driver's duplicate key error rethrown as a plain \<open>Error\<close> with the prefix
  \<open>Failed to record attendance: \<close>; like every error the service rethrows, it has the
  name \<open>Error\<close> and no code.
\<close>

theorem duplicate_entry_refused:
  assumes "Attendance_findOne st student (lec_id lecture) = Some existing"
  shows "recordAttendance st qrCode lecture student device env =
           (Inl (rethrow ''Failed to record attendance: ''
                  (duplicateKeyError ''attendances''
                     (if Attendance_findById st (re_attendanceId env) \<noteq> None then ''_id_''
                      else ''studentId_1_lectureId_1''))), st)
       \<and> err_name (rethrow ''Failed to record attendance: '' e) = ''Error''
       \<and> err_code (rethrow ''Failed to record attendance: '' e) = None
       \<and> Attendance_findOne (snd (recordAttendance st qrCode lecture student device env))
            student (lec_id lecture) = Some existing"
proof -
  let ?a = "new_Attendance (re_attendanceId env) student (lec_id lecture) (qr_id qrCode) device
              (re_now env)"
  have keys: "att_id ?a = re_attendanceId env" "studentId ?a = student"
    "att_lectureId ?a = lec_id lecture"
    by (simp_all add: new_Attendance_def)
  have "Attendance_save_new st (re_lookupFault env) ?a =
          Inl (duplicateKeyError ''attendances''
                 (if Attendance_findById st (re_attendanceId env) \<noteq> None then ''_id_''
                  else ''studentId_1_lectureId_1''))"
    using assms keys
    by (simp add: Attendance_save_new_def new_Attendance_valid Let_def Attendance_preSave_keys)
  then have "recordAttendance st qrCode lecture student device env =
           (Inl (rethrow ''Failed to record attendance: ''
                  (duplicateKeyError ''attendances''
                     (if Attendance_findById st (re_attendanceId env) \<noteq> None then ''_id_''
                      else ''studentId_1_lectureId_1''))), st)"
    by (simp add: recordAttendance_def Let_def)
  then show ?thesis using assms by (simp add: rethrow_def)
qed

lemma afterFirstScan_entry:
  "Attendance_findOne afterFirstScan 7 (lec_id exLecture)
     = Some (new_Attendance 3 7 1 2 ''phone'' 32400000)"
  by code_simp

text \<open>Student 7, who scanned at 09:00, is recorded a second time.\<close>

theorem duplicate_entry_refused_witness:
  "Attendance_findOne afterFirstScan 7 (lec_id exLecture)
     = Some (new_Attendance 3 7 1 2 ''phone'' 32400000)
   \<and> recordAttendance afterFirstScan exCode exLecture 7 ''phone'' (exRecordEnv 32500000 4)
     = (Inl (JsError ''Error'' None
          ''Failed to record attendance: E11000 duplicate key error collection: attendances index: studentId_1_lectureId_1''),
        afterFirstScan)"
proof -
  have fresh: "Attendance_findById afterFirstScan (re_attendanceId (exRecordEnv 32500000 4)) = None"
    by code_simp
  show ?thesis
    using duplicate_entry_refused [OF afterFirstScan_entry, of exCode "''phone''"
        "exRecordEnv 32500000 4"] afterFirstScan_entry fresh
    by (simp add: rethrow_def duplicateKeyError_def)
qed

text \<open>
  C3 as it was stated fails there: the error of the duplicate is not a conflict error of
  a type of its own. It carries no duplicate key code, so the error handler's test does
  not recognise it, and it has the name and the (absent) code of the error thrown when
  the lecture's document is gone, which is no duplicate at all; only the message text
  tells the two apart.
\<close>

theorem duplicate_entry_error_is_generic:
  "fst (recordAttendance afterFirstScan exCode exLecture 7 ''phone'' (exRecordEnv 32500000 4))
     = Inl (JsError ''Error'' None
          ''Failed to record attendance: E11000 duplicate key error collection: attendances index: studentId_1_lectureId_1'')
   \<and> \<not> isDuplicateKeyError (JsError ''Error'' None
          ''Failed to record attendance: E11000 duplicate key error collection: attendances index: studentId_1_lectureId_1'')
   \<and> fst (recordAttendance lectureGoneStore exCode exLecture 7 ''phone'' (exRecordEnv 32500000 4))
     = Inl (JsError ''Error'' None
          ''Failed to record attendance: No document found for query on model Lecture'')"
  by code_simp


section \<open>Revocation\<close>

lemma QRCode_validate_revoked:
  "QRCode_validate (q\<lparr>qr_isActive := b, expiresAt := t\<rparr>) = QRCode_validate q"
  by (simp add: QRCode_validate_def)

lemma deactivateQRCode_found:
  assumes "QRCode_findById st i = Some q" and "QRCode_validate q = []"
  shows "deactivateQRCode st i t =
           (Inr True, st\<lparr>qrcodes := map (\<lambda>x. if qr_id x = i
                                              then x\<lparr>qr_isActive := False, expiresAt := t\<rparr>
                                              else x) (qrcodes st)\<rparr>)"
  using assms QRCode_findById_id [OF assms(1)]
  by (simp add: deactivateQRCode_def QRCode_save_def QRCode_validate_revoked Let_def)

lemma deactivateQRCode_lookup:
  assumes "QRCode_findById st i = Some q" and "QRCode_validate q = []"
  shows "QRCode_findById (snd (deactivateQRCode st i t)) i
           = Some (q\<lparr>qr_isActive := False, expiresAt := t\<rparr>)"
  using assms(1) find_code_map [of "\<lambda>x. x\<lparr>qr_isActive := False, expiresAt := t\<rparr>" i "qrcodes st"]
  by (simp add: deactivateQRCode_found [OF assms] QRCode_findById_def)

text \<open>
  C7, as amended. Revoking a stored code at \<open>t1\<close> succeeds and leaves it inactive with
  expiration \<open>t1\<close>. Revoking it again at \<open>t2\<close> succeeds as well, and the store is then the
  one a single revocation at \<open>t2\<close> leaves: the code stays inactive and its expiration
  moves to \<open>t2\<close>. The second revocation changes nothing only when both happen at the same
  instant.
\<close>

theorem revoke_twice:
  assumes "QRCode_findById st i = Some q" and "QRCode_validate q = []"
  shows "fst (deactivateQRCode st i t1) = Inr True
       \<and> QRCode_findById (snd (deactivateQRCode st i t1)) i
           = Some (q\<lparr>qr_isActive := False, expiresAt := t1\<rparr>)
       \<and> fst (deactivateQRCode (snd (deactivateQRCode st i t1)) i t2) = Inr True
       \<and> snd (deactivateQRCode (snd (deactivateQRCode st i t1)) i t2)
           = snd (deactivateQRCode st i t2)
       \<and> (t2 = t1 \<longrightarrow> snd (deactivateQRCode (snd (deactivateQRCode st i t1)) i t2)
                         = snd (deactivateQRCode st i t1))"
proof -
  let ?q1 = "q\<lparr>qr_isActive := False, expiresAt := t1\<rparr>"
  let ?st1 = "snd (deactivateQRCode st i t1)"
  have l1: "QRCode_findById ?st1 i = Some ?q1"
    by (rule deactivateQRCode_lookup [OF assms])
  have v1: "QRCode_validate ?q1 = []"
    using assms(2) by (simp add: QRCode_validate_revoked)
  have e1: "deactivateQRCode st i t1 =
      (Inr True, st\<lparr>qrcodes := map (\<lambda>x. if qr_id x = i
                                          then x\<lparr>qr_isActive := False, expiresAt := t1\<rparr>
                                          else x) (qrcodes st)\<rparr>)"
    by (rule deactivateQRCode_found [OF assms])
  have e2: "deactivateQRCode ?st1 i t2 =
      (Inr True, ?st1\<lparr>qrcodes := map (\<lambda>x. if qr_id x = i
                                          then x\<lparr>qr_isActive := False, expiresAt := t2\<rparr>
                                          else x) (qrcodes ?st1)\<rparr>)"
    by (rule deactivateQRCode_found [OF l1 v1])
  have twice: "snd (deactivateQRCode ?st1 i t2) = snd (deactivateQRCode st i t2)"
    unfolding e2 by (simp add: e1 deactivateQRCode_found [OF assms] o_def cong: if_cong)
  have c1: "fst (deactivateQRCode st i t1) = Inr True"
    by (simp add: e1)
  have c3: "fst (deactivateQRCode ?st1 i t2) = Inr True"
    unfolding e2 by simp
  have c5: "t2 = t1 \<longrightarrow> snd (deactivateQRCode ?st1 i t2) = ?st1"
    using twice by blast
  show ?thesis
    using c1 l1 c3 twice c5 by blast
qed


lemma exStore_code: "QRCode_findById exStore 2 = Some exCode"
  by code_simp

lemma exCode_valid: "QRCode_validate exCode = []"
  by code_simp

text \<open>The example code revoked at 1000 and again at 2000.\<close>

theorem revoke_twice_witness:
  "QRCode_findById exStore 2 = Some exCode \<and> QRCode_validate exCode = []
   \<and> fst (deactivateQRCode exStore 2 1000) = Inr True
   \<and> QRCode_findById (snd (deactivateQRCode exStore 2 1000)) 2
        = Some (exCode\<lparr>qr_isActive := False, expiresAt := 1000\<rparr>)
   \<and> fst (deactivateQRCode (snd (deactivateQRCode exStore 2 1000)) 2 2000) = Inr True
   \<and> snd (deactivateQRCode (snd (deactivateQRCode exStore 2 1000)) 2 2000)
        = snd (deactivateQRCode exStore 2 2000)"
  using revoke_twice [OF exStore_code exCode_valid, of 1000 2000] exStore_code exCode_valid
  by blast

text \<open>
  C7 as it was stated fails there: the second revocation is not a no-op, and the state
  after two revocations differs from the state after one (expiration 2000 against
  1000).
\<close>

theorem second_revocation_changes_expiry:
  "qrcodes (snd (deactivateQRCode exStore 2 1000))
     = [exCode\<lparr>qr_isActive := False, expiresAt := 1000\<rparr>]
   \<and> qrcodes (snd (deactivateQRCode (snd (deactivateQRCode exStore 2 1000)) 2 2000))
     = [exCode\<lparr>qr_isActive := False, expiresAt := 2000\<rparr>]
   \<and> snd (deactivateQRCode (snd (deactivateQRCode exStore 2 1000)) 2 2000)
     \<noteq> snd (deactivateQRCode exStore 2 1000)"
  by code_simp

section \<open>Issuing with a malformed start time\<close>

text \<open>
  C8, as amended. When the start time of the lecture data does not have the schema's
  time format, \<open>generateQRCode\<close> fails and the store is the one it was given: neither a
  lecture nor a code was written, and nothing is returned as a success. What it throws
  is the schema's validation error for the lecture, which names the path \<open>startTime\<close>,
  rethrown as a plain \<open>Error\<close> with the prefix \<open>Failed to generate QR code: \<close>; like every
  error the service rethrows, it has the name \<open>Error\<close> and no code.
\<close>

theorem malformed_start_time_persists_nothing:
  assumes "\<not> timeFormat (ld_startTime d)"
  shows "generateQRCode st d minutes env =
           (Inl (rethrow ''Failed to generate QR code: ''
                  (validationError ''Lecture''
                     (Lecture_validate (new_Lecture (ie_lectureId env) d)))), st)
       \<and> (\<exists>m. (''startTime'', m) \<in> set (Lecture_validate (new_Lecture (ie_lectureId env) d)))
       \<and> err_name (rethrow ''Failed to generate QR code: '' e) = ''Error''
       \<and> err_code (rethrow ''Failed to generate QR code: '' e) = None
       \<and> \<not> isValidationError (rethrow ''Failed to generate QR code: '' e)"
proof -
  let ?l = "new_Lecture (ie_lectureId env) d"
  have st: "startTime ?l = ld_startTime d"
    by (simp add: new_Lecture_def)
  have "timeErrors ''startTime'' ''Start time is required'' (startTime ?l) \<noteq> []"
    using assms by (simp add: st timeErrors_def)
  then obtain m where "(''startTime'', m) \<in> set (timeErrors ''startTime'' ''Start time is required'' (startTime ?l))"
    by (auto simp: timeErrors_def split: if_splits)
  then have mem: "(''startTime'', m) \<in> set (Lecture_validate ?l)"
    by (simp add: Lecture_validate_def)
  then have "Lecture_validate ?l \<noteq> []" by auto
  then have "generateQRCode st d minutes env =
           (Inl (rethrow ''Failed to generate QR code: ''
                  (validationError ''Lecture'' (Lecture_validate ?l))), st)"
    by (simp add: generateQRCode_def Lecture_save_new_def Let_def)
  with mem show ?thesis by (auto simp: rethrow_def isValidationError_def)
qed

lemma bad_start: "\<not> timeFormat (ld_startTime (exLectureData\<lparr>ld_startTime := ''25:00''\<rparr>))"
  by code_simp

lemma bad_start_message:
  "rethrow ''Failed to generate QR code: ''
     (validationError ''Lecture''
        (Lecture_validate (new_Lecture (ie_lectureId exIssueEnv)
           (exLectureData\<lparr>ld_startTime := ''25:00''\<rparr>))))
   = JsError ''Error'' None
       ''Failed to generate QR code: Lecture validation failed: startTime: Please provide valid time format (HH:MM)''"
  by code_simp

text \<open>The start time \<open>25:00\<close> on the empty store.\<close>

theorem malformed_start_time_persists_nothing_witness:
  "\<not> timeFormat ''25:00''
   \<and> generateQRCode emptyStore (exLectureData\<lparr>ld_startTime := ''25:00''\<rparr>) 60 exIssueEnv
     = (Inl (JsError ''Error'' None
          ''Failed to generate QR code: Lecture validation failed: startTime: Please provide valid time format (HH:MM)''),
        emptyStore)"
  using malformed_start_time_persists_nothing [OF bad_start, of emptyStore 60 exIssueEnv]
    bad_start bad_start_message
  by simp


text \<open>
  C8 as it was stated fails there: what the issuance with the start time \<open>25:00\<close> throws
  is not a validation error. It has the name \<open>Error\<close>, so the error handler's test for a
  validation error does not recognise it, and it is not the error the schema's
  validation raised; only the message text carries the validation's words.
\<close>

theorem malformed_start_time_error_is_plain:
  "fst (generateQRCode emptyStore (exLectureData\<lparr>ld_startTime := ''25:00''\<rparr>) 60 exIssueEnv)
     = Inl (JsError ''Error'' None
          ''Failed to generate QR code: Lecture validation failed: startTime: Please provide valid time format (HH:MM)'')
   \<and> \<not> isValidationError (JsError ''Error'' None
          ''Failed to generate QR code: Lecture validation failed: startTime: Please provide valid time format (HH:MM)'')
   \<and> fst (generateQRCode emptyStore (exLectureData\<lparr>ld_startTime := ''25:00''\<rparr>) 60 exIssueEnv)
     \<noteq> Inl (validationError ''Lecture''
              [(''startTime'', ''Please provide valid time format (HH:MM)'')])
   \<and> isValidationError (validationError ''Lecture''
              [(''startTime'', ''Please provide valid time format (HH:MM)'')])"
  by code_simp

section \<open>Saving an entry whose lecture is not found\<close>

text \<open>
  C9. When the hook's lookup of the lecture throws, or finds no lecture, the save of a
  new entry (with a fresh id, for a pair that has no entry) succeeds: the entry is
  appended to the store as it was built, with the schema's default status
  \<open>present\<close>, and the caller gets no error.
\<close>

theorem entry_saved_when_lecture_lookup_fails:
  assumes "fault \<noteq> None \<or> Lecture_findById st lectureId = None"
    and "Attendance_findById st i = None"
    and "Attendance_findOne st student lectureId = None"
  shows "Attendance_save_new st fault (new_Attendance i student lectureId codeId device t)
           = Inr (st\<lparr>attendances := attendances st
                       @ [new_Attendance i student lectureId codeId device t]\<rparr>,
                  new_Attendance i student lectureId codeId device t)
       \<and> att_status (new_Attendance i student lectureId codeId device t) = Present"
proof -
  let ?a = "new_Attendance i student lectureId codeId device t"
  have keys: "att_id ?a = i" "studentId ?a = student" "att_lectureId ?a = lectureId"
    "att_status ?a = Present"
    by (simp_all add: new_Attendance_def)
  have hook: "Attendance_preSave True
      (case fault of Some e \<Rightarrow> Inl e | None \<Rightarrow> Inr (Lecture_findById st (att_lectureId ?a))) ?a
        = ?a"
    using assms(1) by (auto simp: Attendance_preSave_def keys split: option.splits)
  show ?thesis
    using assms(2,3)
    by (simp add: Attendance_save_new_def new_Attendance_valid Let_def keys hook)
qed

text \<open>
  A scan at 40000000, after the end of the example lecture, which would be classified
  absent: saved as present when the lecture's document is gone, and when the lookup
  throws.
\<close>

theorem entry_saved_when_lecture_lookup_fails_witness:
  "Attendance_save_new lectureGoneStore None (new_Attendance 3 7 1 2 ''phone'' 40000000)
     = Inr (lectureGoneStore\<lparr>attendances := [new_Attendance 3 7 1 2 ''phone'' 40000000]\<rparr>,
            new_Attendance 3 7 1 2 ''phone'' 40000000)
   \<and> Attendance_save_new exStore (Some (JsError ''MongoNetworkError'' None ''connection closed''))
        (new_Attendance 3 7 1 2 ''phone'' 40000000)
     = Inr (exStore\<lparr>attendances := [new_Attendance 3 7 1 2 ''phone'' 40000000]\<rparr>,
            new_Attendance 3 7 1 2 ''phone'' 40000000)
   \<and> att_status (new_Attendance 3 7 1 2 ''phone'' 40000000) = Present
   \<and> classify 40000000 (lectureStart exLecture) (lectureEnd exLecture) = Absent"
proof -
  have a1: "None \<noteq> (None :: js_error option) \<or> Lecture_findById lectureGoneStore 1 = None"
    by code_simp
  have a2: "Some (JsError ''MongoNetworkError'' None ''connection closed'') \<noteq> None
            \<or> Lecture_findById exStore 1 = None"
    by simp
  have f1: "Attendance_findById lectureGoneStore 3 = None" by code_simp
  have f2: "Attendance_findOne lectureGoneStore 7 1 = None" by code_simp
  have g1: "Attendance_findById exStore 3 = None" by code_simp
  have g2: "Attendance_findOne exStore 7 1 = None" by code_simp
  have e1: "attendances lectureGoneStore = []" by code_simp
  have e2: "attendances exStore = []" by code_simp
  have c: "classify 40000000 (lectureStart exLecture) (lectureEnd exLecture) = Absent"
    by code_simp
  show ?thesis
    using entry_saved_when_lecture_lookup_fails [OF a1 f1 f2, of 2 "''phone''" 40000000]
      entry_saved_when_lecture_lookup_fails [OF a2 g1 g2, of 2 "''phone''" 40000000] e1 e2 c
    by simp
qed

section \<open>Overriding a status\<close>

lemma Attendance_validate_status:
  "Attendance_validate (a\<lparr>att_status := s, att_notes := n, isVerified := v\<rparr>)
     = Attendance_validate (a\<lparr>att_notes := n\<rparr>)"
  by (simp add: Attendance_validate_def)

text \<open>
  What the handler of the override does when it is called: for the lecturer who owns
  the lecture of a stored entry (and notes that pass the schema's length check) it
  answers with the entry carrying the supplied status and \<open>isVerified = false\<close>, and that
  is the entry the store then holds. Its save is a save of a loaded document, for
  which the hook changes nothing, whatever the lecture lookup would give. A new entry
  starts with \<open>isVerified = true\<close>.
\<close>

lemma handler_sets_status:
  assumes "Attendance_findById st i = Some a"
    and "Lecture_findById st (att_lectureId a) = Some l"
    and "lecturerId l = user"
    and "Attendance_validate
           (a\<lparr>att_notes := (if newNotes \<noteq> None \<and> newNotes \<noteq> Some [] then newNotes
                              else att_notes a)\<rparr>) = []"
  shows "fst (attendanceStatusHandler st user i status newNotes)
           = Success (a\<lparr>att_status := status,
                          att_notes := (if newNotes \<noteq> None \<and> newNotes \<noteq> Some [] then newNotes
                                        else att_notes a),
                          isVerified := False\<rparr>)
       \<and> Attendance_findById (snd (attendanceStatusHandler st user i status newNotes)) i
           = Some (a\<lparr>att_status := status,
                        att_notes := (if newNotes \<noteq> None \<and> newNotes \<noteq> Some [] then newNotes
                                      else att_notes a),
                        isVerified := False\<rparr>)
       \<and> Attendance_preSave False lookup x = x
       \<and> isVerified (new_Attendance i' student' lectureId' codeId' device' t') = True"
proof -
  let ?n = "if newNotes \<noteq> None \<and> newNotes \<noteq> Some [] then newNotes else att_notes a"
  let ?a' = "a\<lparr>att_status := status, att_notes := ?n, isVerified := False\<rparr>"
  let ?upd = "\<lambda>x. x\<lparr>att_status := status,
                       att_notes := (if newNotes \<noteq> None \<and> newNotes \<noteq> Some [] then newNotes
                                     else att_notes x),
                       isVerified := False\<rparr>"
  have id: "att_id a = i" by (rule Attendance_findById_id [OF assms(1)])
  have v: "Attendance_validate ?a' = []"
    using assms(4) by (simp only: Attendance_validate_status)
  have hook: "\<And>lookup x. Attendance_preSave False lookup x = x"
    by (simp add: Attendance_preSave_def)
  have save: "Attendance_save st ?a' ?upd =
      Inr (st\<lparr>attendances := map (\<lambda>x. if att_id x = i then ?upd x else x) (attendances st)\<rparr>)"
    unfolding Attendance_save_def Let_def hook using v assms(1) id by simp
  have res: "attendanceStatusHandler st user i status newNotes =
      (Success ?a',
       st\<lparr>attendances := map (\<lambda>x. if att_id x = i then ?upd x else x) (attendances st)\<rparr>)"
    unfolding attendanceStatusHandler_def Let_def using assms(1,2,3) save by simp
  have found: "Attendance_findById
      (st\<lparr>attendances := map (\<lambda>x. if att_id x = i then ?upd x else x) (attendances st)\<rparr>) i
        = Some ?a'"
    using assms(1) find_entry_map [of ?upd i "attendances st"]
    by (simp add: Attendance_findById_def)
  show ?thesis
    unfolding res using found hook by (simp add: new_Attendance_def)
qed


lemma afterFirstScan_entry_by_id:
  "Attendance_findById afterFirstScan 3 = Some (new_Attendance 3 7 1 2 ''phone'' 32400000)"
  by code_simp

lemma afterFirstScan_lecture:
  "Lecture_findById afterFirstScan (att_lectureId (new_Attendance 3 7 1 2 ''phone'' 32400000))
     = Some (exLecture\<lparr>attendanceCount := 1\<rparr>)"
  by code_simp

lemma afterFirstScan_owner: "lecturerId (exLecture\<lparr>attendanceCount := 1\<rparr>) = 10"
  by code_simp

text \<open>
  C10 at the entry of student 7, classified present at 09:00, which lecturer 10, the
  owner of the lecture, sets to absent. The route gives no response and the store is
  the one before the request: the entry is still present and still verified. The
  handler, had it been called, would have stored the entry as absent and unverified,
  as the claim says.
\<close>

theorem override_request_unanswered:
  "updateAttendanceStatus afterFirstScan
       \<lparr> sr_user = 10, sr_attendanceId = 3, sr_status = Absent, sr_notes = Some ''left early'' \<rparr>
     = (NoResponse, afterFirstScan)
   \<and> Attendance_findById afterFirstScan 3 = Some (new_Attendance 3 7 1 2 ''phone'' 32400000)
   \<and> att_status (new_Attendance 3 7 1 2 ''phone'' 32400000) = Present
   \<and> isVerified (new_Attendance 3 7 1 2 ''phone'' 32400000) = True
   \<and> Attendance_findById
         (snd (attendanceStatusHandler afterFirstScan 10 3 Absent (Some ''left early''))) 3
       = Some ((new_Attendance 3 7 1 2 ''phone'' 32400000)
                 \<lparr>att_status := Absent, att_notes := Some ''left early'', isVerified := False\<rparr>)"
proof -
  have ok: "Attendance_validate
      ((new_Attendance 3 7 1 2 ''phone'' 32400000)
         \<lparr>att_notes := (if Some ''left early'' \<noteq> None \<and> Some ''left early'' \<noteq> Some []
                          then Some ''left early''
                          else att_notes (new_Attendance 3 7 1 2 ''phone'' 32400000))\<rparr>) = []"
    by code_simp
  have p: "att_status (new_Attendance 3 7 1 2 ''phone'' 32400000) = Present"
    "isVerified (new_Attendance 3 7 1 2 ''phone'' 32400000) = True"
    by code_simp+
  show ?thesis
    using handler_sets_status [OF afterFirstScan_entry_by_id afterFirstScan_lecture
        afterFirstScan_owner ok, of Absent] afterFirstScan_entry_by_id p
    by (simp add: updateAttendanceStatus_unanswered)
qed

end
